theory Spec2Isabelle
  imports Complex_Main
begin

section \<open>Python values and exceptions\<close>

text \<open>
  The program is dynamically typed: the setters of \<^verbatim>\<open>bank.py\<close> inspect the class of
  their argument with \<^verbatim>\<open>isinstance\<close>, and the arithmetic on the balance dispatches on
  the classes of both operands. Arguments are values of the built-in classes the program
  can meet: \<^verbatim>\<open>None\<close>, \<^verbatim>\<open>bool\<close>, \<^verbatim>\<open>int\<close> (unbounded), \<^verbatim>\<open>float\<close>,
  \<^verbatim>\<open>fractions.Fraction\<close>, \<^verbatim>\<open>decimal.Decimal\<close>, \<^verbatim>\<open>str\<close>, and \<^verbatim>\<open>slice\<close> objects
  whose three parts are \<^verbatim>\<open>None\<close> or an \<^verbatim>\<open>int\<close>. Instances of user-defined classes are
  not in the universe. A string is a list of 8-bit characters, read as the code points
  below 256.
\<close>

text \<open>A \<^verbatim>\<open>float\<close> is an IEEE 754 binary64 number: a sign and a magnitude, an infinity,
  or a NaN. The magnitude of a finite value is a rational of the form \<open>m * 2 ^ e\<close>.\<close>

datatype pyfloat = FFin bool rat | FInf bool | FNaN

text \<open>A \<^verbatim>\<open>Decimal\<close> is a sign, a coefficient and an exponent, an infinity, a quiet NaN
  or a signalling NaN. Signs and payloads of NaNs are not kept.\<close>

datatype pydec = DFin bool nat int | DInf bool | DNaN | DsNaN

datatype pyval =
    VNone
  | VBool bool
  | VInt int
  | VFloat pyfloat
  | VFrac rat
  | VDecimal pydec
  | VStr string
  | VSlice "int option" "int option" "int option"

datatype error =
    ValueError
  | TypeError
  | IndexError
  | AttributeError
  | OverflowError
  | InvalidOperation
  | DecimalOverflow
  | TransactionAbort string
  | TransactionCodeError

definition and_then :: "error + 'a \<Rightarrow> ('a \<Rightarrow> error + 'b) \<Rightarrow> error + 'b" where
  "and_then r f = (case r of Inl e \<Rightarrow> Inl e | Inr x \<Rightarrow> f x)"

text \<open>\<^verbatim>\<open>isinstance(v, int)\<close>: \<^verbatim>\<open>bool\<close> is a subclass of \<^verbatim>\<open>int\<close>, with
  \<^verbatim>\<open>True == 1\<close> and \<^verbatim>\<open>False == 0\<close>.\<close>

fun as_int :: "pyval \<Rightarrow> int option" where
  "as_int (VBool b) = Some (if b then 1 else 0)"
| "as_int (VInt i) = Some i"
| "as_int _ = None"




definition is_slice :: "pyval \<Rightarrow> bool" where
  "is_slice v = (case v of VSlice a b c \<Rightarrow> True | _ \<Rightarrow> False)"

text \<open>The numbers whose arithmetic is exact: \<^verbatim>\<open>bool\<close>, \<^verbatim>\<open>int\<close> and \<^verbatim>\<open>Fraction\<close>.\<close>

fun as_exact :: "pyval \<Rightarrow> rat option" where
  "as_exact (VBool b) = Some (if b then 1 else 0)"
| "as_exact (VInt i) = Some (of_int i)"
| "as_exact (VFrac q) = Some q"
| "as_exact _ = None"

section \<open>Library functions the program calls\<close>

subsection \<open>Decimal digits, \<^verbatim>\<open>str(int)\<close> and \<^verbatim>\<open>int(str)\<close>\<close>

definition digit_char :: "nat \<Rightarrow> char" where
  "digit_char d = ''0123456789'' ! d"

definition is_digit :: "char \<Rightarrow> bool" where
  "is_digit c = (c \<in> set ''0123456789'')"

definition digit_val :: "char \<Rightarrow> nat" where
  "digit_val c = of_char c - of_char CHR ''0''"

function dec :: "nat \<Rightarrow> string" where
  "dec n = (if n < 10 then [digit_char n] else dec (n div 10) @ [digit_char (n mod 10)])"
  by pat_completeness auto
termination
  by (relation "measure id") auto

declare dec.simps [simp del]

text \<open>\<^verbatim>\<open>str(i)\<close> of an \<^verbatim>\<open>int\<close>. CPython refuses to convert an integer of more than
  4300 digits (the default of \<^verbatim>\<open>sys.int_max_str_digits\<close>) and raises \<^verbatim>\<open>ValueError\<close>.\<close>

definition str_int :: "int \<Rightarrow> error + string" where
  "str_int i =
     (let ds = dec (nat \<bar>i\<bar>)
      in if 4300 < length ds then Inl ValueError
         else Inr (if i < 0 then CHR ''-'' # ds else ds))"

text \<open>\<^verbatim>\<open>str.isspace\<close> below code point 256: tab, line feed, vertical tab, form feed,
  carriage return, the four separators \<^verbatim>\<open>0x1c\<close> to \<^verbatim>\<open>0x1f\<close>, the space, \<^verbatim>\<open>0x85\<close> and
  \<^verbatim>\<open>0xa0\<close>.\<close>

definition is_space :: "char \<Rightarrow> bool" where
  "is_space c = (of_char c \<in> {9, 10, 11, 12, 13, 28, 29, 30, 31, 32, 133, 160 :: nat})"

text \<open>\<^verbatim>\<open>s.strip()\<close>.\<close>

definition strip :: "string \<Rightarrow> string" where
  "strip s = rev (dropWhile is_space (rev (dropWhile is_space s)))"

text \<open>The whitespace \<^verbatim>\<open>int(s)\<close> skips around the literal: the six of C's
  \<^verbatim>\<open>isspace\<close>, and the two above code point 127. The separators \<^verbatim>\<open>0x1c\<close> to
  \<^verbatim>\<open>0x1f\<close> are not skipped.\<close>

definition int_space :: "char \<Rightarrow> bool" where
  "int_space c = (of_char c \<in> {9, 10, 11, 12, 13, 32, 133, 160 :: nat})"

text \<open>The digits of an integer literal as \<^verbatim>\<open>int(s)\<close> reads them: single underscores
  may separate digits.\<close>

fun int_digits :: "nat \<Rightarrow> string \<Rightarrow> nat option" where
  "int_digits acc [] = Some acc"
| "int_digits acc (c # cs) =
     (if is_digit c then int_digits (acc * 10 + digit_val c) cs
      else if c = CHR ''_'' then
        (case cs of
           [] \<Rightarrow> None
         | d # ds \<Rightarrow> if is_digit d then int_digits (acc * 10 + digit_val d) ds else None)
      else None)"

text \<open>A literal of more than 4300 digits is refused like a malformed one.\<close>

definition int_unsigned :: "string \<Rightarrow> nat option" where
  "int_unsigned s =
     (case s of
        [] \<Rightarrow> None
      | c # cs \<Rightarrow>
          if is_digit c \<and> length (filter is_digit s) \<le> 4300
          then int_digits (digit_val c) cs else None)"

text \<open>\<^verbatim>\<open>int(s)\<close> for a \<^verbatim>\<open>str\<close>, base 10: surrounding whitespace is dropped, one sign
  is allowed, and anything else raises \<^verbatim>\<open>ValueError\<close>.\<close>

definition py_int :: "string \<Rightarrow> error + int" where
  "py_int s =
     (case rev (dropWhile int_space (rev (dropWhile int_space s))) of
        [] \<Rightarrow> Inl ValueError
      | c # cs \<Rightarrow>
          if c = CHR ''-'' then
            (case int_unsigned cs of None \<Rightarrow> Inl ValueError | Some n \<Rightarrow> Inr (- int n))
          else if c = CHR ''+'' then
            (case int_unsigned cs of None \<Rightarrow> Inl ValueError | Some n \<Rightarrow> Inr (int n))
          else
            (case int_unsigned (c # cs) of None \<Rightarrow> Inl ValueError | Some n \<Rightarrow> Inr (int n)))"

subsection \<open>\<^verbatim>\<open>str.split\<close>, \<^verbatim>\<open>in\<close>, \<^verbatim>\<open>str.index\<close> and subscripts\<close>

text \<open>\<^verbatim>\<open>s.split(sep)\<close> for a one-character separator: \<open>n\<close> separators give \<open>n + 1\<close>
  fields, some of them possibly empty.\<close>

fun split :: "char \<Rightarrow> string \<Rightarrow> string list" where
  "split sep [] = [[]]"
| "split sep (c # cs) =
     (if c = sep then [] # split sep cs
      else (case split sep cs of [] \<Rightarrow> [[c]] | f # fs \<Rightarrow> (c # f) # fs))"

text \<open>\<^verbatim>\<open>s.find(sub)\<close> counted from position \<open>i\<close>: the lowest position where \<open>sub\<close>
  occurs as a substring. \<^verbatim>\<open>sub in s\<close> holds when there is one, and \<^verbatim>\<open>s.index(sub)\<close>
  returns it.\<close>

fun find_from :: "nat \<Rightarrow> string \<Rightarrow> string \<Rightarrow> nat option" where
  "find_from i sub [] = (if sub = [] then Some i else None)"
| "find_from i sub (c # cs) =
     (if take (length sub) (c # cs) = sub then Some i else find_from (Suc i) sub cs)"

definition str_in :: "string \<Rightarrow> string \<Rightarrow> bool" where
  "str_in sub s = (find_from 0 sub s \<noteq> None)"

definition str_index :: "string \<Rightarrow> string \<Rightarrow> error + nat" where
  "str_index s sub = (case find_from 0 sub s of None \<Rightarrow> Inl ValueError | Some i \<Rightarrow> Inr i)"

text \<open>One bound of a slice, as \<^verbatim>\<open>slice.indices\<close> adjusts it: a negative bound counts
  from the end, and the result is clamped to \<open>lower\<close> and \<open>upper\<close>.\<close>

definition slice_bound :: "int \<Rightarrow> int \<Rightarrow> int \<Rightarrow> int \<Rightarrow> int option \<Rightarrow> int" where
  "slice_bound n lower upper dflt b =
     (case b of
        None \<Rightarrow> dflt
      | Some i \<Rightarrow> if i < 0 then max (i + n) lower else min i upper)"

text \<open>\<^verbatim>\<open>s[a:b:c]\<close>: the characters at \<open>start\<close>, \<open>start + step\<close>, ... short of \<open>stop\<close>. A
  step of zero raises \<^verbatim>\<open>ValueError\<close>.\<close>

definition str_slice :: "string \<Rightarrow> int option \<Rightarrow> int option \<Rightarrow> int option \<Rightarrow> error + string" where
  "str_slice s a b c =
     (let n = int (length s); step = (case c of None \<Rightarrow> 1 | Some k \<Rightarrow> k)
      in if step = 0 then Inl ValueError
         else if 0 < step then
           (let start = slice_bound n 0 n 0 a; stop = slice_bound n 0 n n b;
                count = (if start < stop then (stop - start - 1) div step + 1 else 0)
            in Inr (map (\<lambda>k. s ! nat (start + int k * step)) [0 ..< nat count]))
         else
           (let start = slice_bound n (- 1) (n - 1) (n - 1) a;
                stop = slice_bound n (- 1) (n - 1) (- 1) b;
                count = (if stop < start then (start - stop - 1) div (- step) + 1 else 0)
            in Inr (map (\<lambda>k. s ! nat (start + int k * step)) [0 ..< nat count])))"

text \<open>\<^verbatim>\<open>s[v]\<close>: an \<^verbatim>\<open>int\<close> selects one character, a negative one counting from the end,
  and raises \<^verbatim>\<open>IndexError\<close> out of range; a slice selects a substring; any other value
  raises \<^verbatim>\<open>TypeError\<close>.\<close>

definition str_getitem :: "string \<Rightarrow> pyval \<Rightarrow> error + string" where
  "str_getitem s v =
     (case v of
        VSlice a b c \<Rightarrow> str_slice s a b c
      | _ \<Rightarrow>
          (case as_int v of
             None \<Rightarrow> Inl TypeError
           | Some i \<Rightarrow>
               (let n = int (length s); j = (if i < 0 then i + n else i)
                in if 0 \<le> j \<and> j < n then Inr [s ! nat j] else Inl IndexError)))"

subsection \<open>\<^verbatim>\<open>float\<close>\<close>

text \<open>The number of digits of \<open>n\<close> in base \<open>b\<close> (none for 0), powers with an integer
  exponent, and \<open>\<lfloor>log\<^sub>b q\<rfloor>\<close> for a positive rational.\<close>

function width :: "nat \<Rightarrow> nat \<Rightarrow> nat" where
  "width b n = (if n = 0 \<or> b < 2 then 0 else Suc (width b (n div b)))"
  by pat_completeness auto
termination
  by (relation "measure snd") auto

declare width.simps [simp del]

definition ipow :: "nat \<Rightarrow> int \<Rightarrow> rat" where
  "ipow b e = (if 0 \<le> e then of_nat b ^ nat e else 1 / of_nat b ^ nat (- e))"

definition ilog :: "nat \<Rightarrow> rat \<Rightarrow> int" where
  "ilog b q =
     (case quotient_of q of
        (n, d) \<Rightarrow>
          (let k = int (width b (nat n)) - int (width b (nat d))
           in if ipow b k \<le> q then k else k - 1))"

text \<open>Rounding of a non-negative rational to the nearest natural number, a tie going to
  the even one.\<close>

definition round_half_even :: "rat \<Rightarrow> nat" where
  "round_half_even q =
     (let f = nat \<lfloor>q\<rfloor>; r = q - of_nat f
      in if r < 1 / 2 \<or> (r = 1 / 2 \<and> even f) then f else Suc f)"

text \<open>The binary64 number nearest to a magnitude \<open>m\<close>: 53 significant bits, no exponent
  below \<open>-1074\<close>, and an infinity from \<open>2 ^ 1024\<close> on.\<close>

definition fround :: "bool \<Rightarrow> rat \<Rightarrow> pyfloat" where
  "fround s m =
     (if m = 0 then FFin s 0
      else
        (let e = max (ilog 2 m - 52) (- 1074);
             r = of_nat (round_half_even (m / ipow 2 e)) * ipow 2 e
         in if ipow 2 1024 \<le> r then FInf s else FFin s r))"

text \<open>\<^verbatim>\<open>float(i)\<close> of an \<^verbatim>\<open>int\<close> and \<^verbatim>\<open>float(q)\<close> of a \<^verbatim>\<open>Fraction\<close>, which is
  \<^verbatim>\<open>numerator / denominator\<close>: both round correctly and raise \<^verbatim>\<open>OverflowError\<close>
  where the result would be an infinity.\<close>

definition float_of_rat :: "rat \<Rightarrow> error + pyfloat" where
  "float_of_rat q =
     (case fround (q < 0) \<bar>q\<bar> of
        FInf s \<Rightarrow> Inl OverflowError
      | f \<Rightarrow> Inr f)"

fun fl_neg :: "pyfloat \<Rightarrow> pyfloat" where
  "fl_neg (FFin s m) = FFin (\<not> s) m"
| "fl_neg (FInf s) = FInf (\<not> s)"
| "fl_neg FNaN = FNaN"

text \<open>\<^verbatim>\<open>x + y\<close>, \<^verbatim>\<open>x - y\<close> and \<^verbatim>\<open>x * y\<close> on floats never raise. An exact sum of zero
  is \<open>-0.0\<close> only when both operands are negative.\<close>

fun fl_add :: "pyfloat \<Rightarrow> pyfloat \<Rightarrow> pyfloat" where
  "fl_add FNaN y = FNaN"
| "fl_add x FNaN = FNaN"
| "fl_add (FInf s) (FInf t) = (if s = t then FInf s else FNaN)"
| "fl_add (FInf s) (FFin t m) = FInf s"
| "fl_add (FFin s m) (FInf t) = FInf t"
| "fl_add (FFin s m) (FFin t n) =
     (let v = (if s then - m else m) + (if t then - n else n)
      in if v = 0 then FFin (s \<and> t) 0 else fround (v < 0) \<bar>v\<bar>)"

definition fl_sub :: "pyfloat \<Rightarrow> pyfloat \<Rightarrow> pyfloat" where
  "fl_sub x y = fl_add x (fl_neg y)"

fun fl_mul :: "pyfloat \<Rightarrow> pyfloat \<Rightarrow> pyfloat" where
  "fl_mul FNaN y = FNaN"
| "fl_mul x FNaN = FNaN"
| "fl_mul (FInf s) (FInf t) = FInf (s \<noteq> t)"
| "fl_mul (FInf s) (FFin t m) = (if m = 0 then FNaN else FInf (s \<noteq> t))"
| "fl_mul (FFin s m) (FInf t) = (if m = 0 then FNaN else FInf (s \<noteq> t))"
| "fl_mul (FFin s m) (FFin t n) = fround (s \<noteq> t) (m * n)"

text \<open>\<^verbatim>\<open>x < 0\<close>; a NaN is not below zero.\<close>

fun fl_lt0 :: "pyfloat \<Rightarrow> bool" where
  "fl_lt0 (FFin s m) = (s \<and> 0 < m)"
| "fl_lt0 (FInf s) = s"
| "fl_lt0 FNaN = False"

text \<open>\<^verbatim>\<open>repr(x)\<close>, which \<^verbatim>\<open>str\<close> and an f-string field use: the shortest decimal numeral
  that reads back as \<open>x\<close>, the nearest to \<open>x\<close> among those of that length. \<open>float_digits\<close>
  gives its digits without trailing zeros and the position of the decimal point.\<close>

definition repr_candidates :: "rat \<Rightarrow> nat \<Rightarrow> rat list" where
  "repr_candidates m n =
     (let u = ipow 10 (ilog 10 m - int n + 1); lo = of_int \<lfloor>m / u\<rfloor> * u; hi = lo + u;
          near = (if m - lo \<le> hi - m then [lo, hi] else [hi, lo])
      in filter (\<lambda>c. 0 < c \<and> fround False c = FFin False m) near)"

fun shortest :: "rat \<Rightarrow> nat list \<Rightarrow> rat" where
  "shortest m [] = m"
| "shortest m (n # ns) =
     (case repr_candidates m n of [] \<Rightarrow> shortest m ns | c # cs \<Rightarrow> c)"

function drop_zeros :: "nat \<Rightarrow> nat" where
  "drop_zeros n = (if n = 0 \<or> n mod 10 \<noteq> 0 then n else drop_zeros (n div 10))"
  by pat_completeness auto
termination
  by (relation "measure id") auto

declare drop_zeros.simps [simp del]

definition float_digits :: "rat \<Rightarrow> string \<times> int" where
  "float_digits m =
     (let c = shortest m [1 ..< 18]; k = ilog 10 c
      in (dec (drop_zeros (nat \<lfloor>c / ipow 10 (k - 16)\<rfloor>)), k + 1))"

definition zpad :: "nat \<Rightarrow> string \<Rightarrow> string" where
  "zpad w s = replicate (w - length s) CHR ''0'' @ s"

definition float_str :: "pyfloat \<Rightarrow> string" where
  "float_str x =
     (case x of
        FNaN \<Rightarrow> ''nan''
      | FInf s \<Rightarrow> (if s then ''-inf'' else ''inf'')
      | FFin s m \<Rightarrow>
          (if s then ''-'' else '''') @
          (if m = 0 then ''0.0''
           else
             (case float_digits m of
                (ds, p) \<Rightarrow>
                  if p \<le> - 4 \<or> 16 < p then
                    take 1 ds @ (if 1 < length ds then ''.'' @ drop 1 ds else '''') @ ''e'' @
                    (if p - 1 < 0 then ''-'' else ''+'') @ zpad 2 (dec (nat \<bar>p - 1\<bar>))
                  else if p \<le> 0 then ''0.'' @ replicate (nat (- p)) CHR ''0'' @ ds
                  else if int (length ds) \<le> p then
                    ds @ replicate (nat p - length ds) CHR ''0'' @ ''.0''
                  else take (nat p) ds @ ''.'' @ drop (nat p) ds)))"

subsection \<open>\<^verbatim>\<open>Decimal\<close>, in the default context\<close>

text \<open>The default context has a precision of 28 digits, rounds half to even, allows
  exponents from \<open>-999999\<close> to \<open>999999\<close>, and traps \<^verbatim>\<open>InvalidOperation\<close> and
  \<^verbatim>\<open>Overflow\<close>, which are then raised as exceptions. \<open>dec_fix\<close> is the rounding every
  arithmetic result goes through.\<close>

definition Emax :: int where "Emax = 999999"
definition Etiny :: int where "Etiny = - 1000026"
definition Etop :: int where "Etop = 999972"

definition dec_fix :: "bool \<Rightarrow> nat \<Rightarrow> int \<Rightarrow> error + pydec" where
  "dec_fix s c e =
     (if c = 0 then Inr (DFin s 0 (min (max e Etiny) Emax))
      else
        (let exp_min = int (width 10 c) + e - 28
         in if Etop < exp_min then Inl DecimalOverflow
            else if e < max exp_min Etiny then
              (let c' = round_half_even (of_nat c * ipow 10 (e - max exp_min Etiny))
               in if 28 < width 10 c' then
                    (if Etop < max exp_min Etiny + 1 then Inl DecimalOverflow
                     else Inr (DFin s (c' div 10) (max exp_min Etiny + 1)))
                  else Inr (DFin s c' (max exp_min Etiny)))
            else Inr (DFin s c e)))"

text \<open>\<^verbatim>\<open>Decimal(i)\<close> of an \<^verbatim>\<open>int\<close> is exact.\<close>

definition dec_of_int :: "int \<Rightarrow> pydec" where
  "dec_of_int i = DFin (i < 0) (nat \<bar>i\<bar>) 0"

fun dec_neg :: "pydec \<Rightarrow> pydec" where
  "dec_neg (DFin s c e) = DFin (\<not> s) c e"
| "dec_neg (DInf s) = DInf (\<not> s)"
| "dec_neg d = d"

text \<open>\<^verbatim>\<open>a + b\<close>: a signalling NaN and the sum of opposite infinities raise; the finite
  sum is taken exactly at the smaller exponent and then rounded.\<close>

fun dec_add :: "pydec \<Rightarrow> pydec \<Rightarrow> error + pydec" where
  "dec_add DsNaN b = Inl InvalidOperation"
| "dec_add a DsNaN = Inl InvalidOperation"
| "dec_add DNaN b = Inr DNaN"
| "dec_add a DNaN = Inr DNaN"
| "dec_add (DInf s) (DInf t) = (if s = t then Inr (DInf s) else Inl InvalidOperation)"
| "dec_add (DInf s) (DFin t c e) = Inr (DInf s)"
| "dec_add (DFin s c e) (DInf t) = Inr (DInf t)"
| "dec_add (DFin s c e) (DFin t d f) =
     (let x = min e f;
          v = (if s then - 1 else 1) * int c * 10 ^ nat (e - x) +
              (if t then - 1 else 1) * int d * 10 ^ nat (f - x)
      in if v = 0 then dec_fix (if c = 0 \<and> d = 0 then s \<and> t else False) 0 x
         else dec_fix (v < 0) (nat \<bar>v\<bar>) x)"

definition dec_sub :: "pydec \<Rightarrow> pydec \<Rightarrow> error + pydec" where
  "dec_sub a b = dec_add a (dec_neg b)"

text \<open>\<^verbatim>\<open>a < 0\<close>: an ordering comparison with a NaN raises.\<close>

fun dec_lt0 :: "pydec \<Rightarrow> error + bool" where
  "dec_lt0 (DFin s c e) = Inr (s \<and> 0 < c)"
| "dec_lt0 (DInf s) = Inr s"
| "dec_lt0 d = Inl InvalidOperation"

text \<open>\<^verbatim>\<open>str(a)\<close>: plain notation while the exponent is not positive and the number is not
  below \<open>10\<^sup>-\<^sup>6\<close>, scientific notation otherwise.\<close>

definition dec_str :: "pydec \<Rightarrow> string" where
  "dec_str a =
     (case a of
        DNaN \<Rightarrow> ''NaN''
      | DsNaN \<Rightarrow> ''sNaN''
      | DInf s \<Rightarrow> (if s then ''-Infinity'' else ''Infinity'')
      | DFin s c e \<Rightarrow>
          (let ds = dec c; left = e + int (length ds);
               p = (if e \<le> 0 \<and> - 6 < left then left else 1)
           in (if s then ''-'' else '''') @
              (if p \<le> 0 then ''0.'' @ replicate (nat (- p)) CHR ''0'' @ ds
               else if int (length ds) \<le> p then ds @ replicate (nat p - length ds) CHR ''0''
               else take (nat p) ds @ ''.'' @ drop (nat p) ds) @
              (if left = p then ''''
               else ''E'' @ (if left - p < 0 then ''-'' else ''+'') @ dec (nat \<bar>left - p\<bar>))))"

subsection \<open>Arithmetic across the classes\<close>

text \<open>A number is what passes \<^verbatim>\<open>isinstance(v, Real) or isinstance(v, Decimal)\<close>. In
  arithmetic a \<^verbatim>\<open>bool\<close> is the \<^verbatim>\<open>int\<close> 0 or 1.\<close>

datatype num = NInt int | NFloat pyfloat | NFrac rat | NDec pydec

fun as_num :: "pyval \<Rightarrow> num option" where
  "as_num (VBool b) = Some (NInt (if b then 1 else 0))"
| "as_num (VInt i) = Some (NInt i)"
| "as_num (VFloat x) = Some (NFloat x)"
| "as_num (VFrac q) = Some (NFrac q)"
| "as_num (VDecimal d) = Some (NDec d)"
| "as_num _ = None"

fun of_num :: "num \<Rightarrow> pyval" where
  "of_num (NInt i) = VInt i"
| "of_num (NFloat x) = VFloat x"
| "of_num (NFrac q) = VFrac q"
| "of_num (NDec d) = VDecimal d"

text \<open>\<^verbatim>\<open>v < 0\<close> for a number.\<close>

fun num_lt0 :: "num \<Rightarrow> error + bool" where
  "num_lt0 (NInt i) = Inr (i < 0)"
| "num_lt0 (NFloat x) = Inr (fl_lt0 x)"
| "num_lt0 (NFrac q) = Inr (q < 0)"
| "num_lt0 (NDec d) = dec_lt0 d"

text \<open>\<^verbatim>\<open>x + y\<close> and \<^verbatim>\<open>x - y\<close>. Integers and fractions are exact. With a \<^verbatim>\<open>float\<close> the
  other operand is converted to \<^verbatim>\<open>float\<close> first. A \<^verbatim>\<open>Decimal\<close> combines with a
  \<^verbatim>\<open>Decimal\<close> or an \<^verbatim>\<open>int\<close> only: with a \<^verbatim>\<open>float\<close> or a \<^verbatim>\<open>Fraction\<close> neither class
  knows the operation, and Python raises \<^verbatim>\<open>TypeError\<close>.\<close>

datatype binop = Plus | Minus

fun num_op :: "binop \<Rightarrow> num \<Rightarrow> num \<Rightarrow> error + num" where
  "num_op f (NInt a) (NInt b) = Inr (NInt (case f of Plus \<Rightarrow> a + b | Minus \<Rightarrow> a - b))"
| "num_op f (NInt a) (NFrac q) =
     Inr (NFrac (case f of Plus \<Rightarrow> of_int a + q | Minus \<Rightarrow> of_int a - q))"
| "num_op f (NFrac p) (NInt b) =
     Inr (NFrac (case f of Plus \<Rightarrow> p + of_int b | Minus \<Rightarrow> p - of_int b))"
| "num_op f (NFrac p) (NFrac q) = Inr (NFrac (case f of Plus \<Rightarrow> p + q | Minus \<Rightarrow> p - q))"
| "num_op f (NFloat x) (NFloat y) =
     Inr (NFloat (case f of Plus \<Rightarrow> fl_add x y | Minus \<Rightarrow> fl_sub x y))"
| "num_op f (NInt a) (NFloat y) =
     and_then (float_of_rat (of_int a))
       (\<lambda>x. Inr (NFloat (case f of Plus \<Rightarrow> fl_add x y | Minus \<Rightarrow> fl_sub x y)))"
| "num_op f (NFloat x) (NInt b) =
     and_then (float_of_rat (of_int b))
       (\<lambda>y. Inr (NFloat (case f of Plus \<Rightarrow> fl_add x y | Minus \<Rightarrow> fl_sub x y)))"
| "num_op f (NFrac p) (NFloat y) =
     and_then (float_of_rat p)
       (\<lambda>x. Inr (NFloat (case f of Plus \<Rightarrow> fl_add x y | Minus \<Rightarrow> fl_sub x y)))"
| "num_op f (NFloat x) (NFrac q) =
     and_then (float_of_rat q)
       (\<lambda>y. Inr (NFloat (case f of Plus \<Rightarrow> fl_add x y | Minus \<Rightarrow> fl_sub x y)))"
| "num_op f (NDec a) (NDec b) =
     and_then (case f of Plus \<Rightarrow> dec_add a b | Minus \<Rightarrow> dec_sub a b) (\<lambda>d. Inr (NDec d))"
| "num_op f (NDec a) (NInt b) =
     and_then (case f of Plus \<Rightarrow> dec_add a (dec_of_int b) | Minus \<Rightarrow> dec_sub a (dec_of_int b))
       (\<lambda>d. Inr (NDec d))"
| "num_op f (NInt a) (NDec b) =
     and_then (case f of Plus \<Rightarrow> dec_add (dec_of_int a) b | Minus \<Rightarrow> dec_sub (dec_of_int a) b)
       (\<lambda>d. Inr (NDec d))"
| "num_op f (NDec a) (NFloat y) = Inl TypeError"
| "num_op f (NFloat x) (NDec b) = Inl TypeError"
| "num_op f (NDec a) (NFrac q) = Inl TypeError"
| "num_op f (NFrac p) (NDec b) = Inl TypeError"

text \<open>\<^verbatim>\<open>v + y\<close> and \<^verbatim>\<open>v - y\<close> for a value \<open>v\<close> and a number \<open>y\<close>; a \<open>v\<close> that is
  no number raises \<^verbatim>\<open>TypeError\<close>.\<close>

definition py_op :: "binop \<Rightarrow> pyval \<Rightarrow> num \<Rightarrow> error + pyval" where
  "py_op f v y =
     (case as_num v of
        None \<Rightarrow> Inl TypeError
      | Some x \<Rightarrow> and_then (num_op f x y) (\<lambda>z. Inr (of_num z)))"

text \<open>\<^verbatim>\<open>v * r\<close> for a \<^verbatim>\<open>float\<close> \<open>r\<close>.\<close>

definition mul_float :: "pyval \<Rightarrow> pyfloat \<Rightarrow> error + pyfloat" where
  "mul_float v r =
     (case as_num v of
        Some (NInt a) \<Rightarrow> and_then (float_of_rat (of_int a)) (\<lambda>x. Inr (fl_mul x r))
      | Some (NFrac p) \<Rightarrow> and_then (float_of_rat p) (\<lambda>x. Inr (fl_mul x r))
      | Some (NFloat x) \<Rightarrow> Inr (fl_mul x r)
      | _ \<Rightarrow> Inl TypeError)"

text \<open>\<^verbatim>\<open>v < 0\<close> on values; a \<open>v\<close> that is no number raises \<^verbatim>\<open>TypeError\<close>.\<close>

definition py_lt0 :: "pyval \<Rightarrow> error + bool" where
  "py_lt0 v = (case as_num v of None \<Rightarrow> Inl TypeError | Some x \<Rightarrow> num_lt0 x)"

subsection \<open>\<^verbatim>\<open>str\<close> of a value\<close>

text \<open>What an f-string field \<^verbatim>\<open>{v}\<close> renders: \<^verbatim>\<open>format(v, '')\<close>, which is \<^verbatim>\<open>str(v)\<close>
  for all these classes.\<close>

definition str_bound :: "int option \<Rightarrow> error + string" where
  "str_bound b = (case b of None \<Rightarrow> Inr ''None'' | Some i \<Rightarrow> str_int i)"

fun py_str :: "pyval \<Rightarrow> error + string" where
  "py_str VNone = Inr ''None''"
| "py_str (VBool b) = Inr (if b then ''True'' else ''False'')"
| "py_str (VInt i) = str_int i"
| "py_str (VFloat x) = Inr (float_str x)"
| "py_str (VFrac q) =
     (case quotient_of q of
        (n, d) \<Rightarrow>
          if d = 1 then str_int n
          else and_then (str_int n) (\<lambda>a. and_then (str_int d) (\<lambda>b. Inr (a @ ''/'' @ b))))"
| "py_str (VDecimal d) = Inr (dec_str d)"
| "py_str (VStr s) = Inr s"
| "py_str (VSlice a b c) =
     and_then (str_bound a) (\<lambda>x. and_then (str_bound b) (\<lambda>y. and_then (str_bound c) (\<lambda>z.
       Inr (''slice('' @ x @ '', '' @ y @ '', '' @ z @ '')''))))"

subsection \<open>\<^verbatim>\<open>timedelta\<close> and \<^verbatim>\<open>timezone\<close>\<close>

text \<open>A \<^verbatim>\<open>timedelta\<close> is kept normalised: any number of days, and seconds within one day.\<close>

record timedelta =
  td_days :: int
  td_seconds :: int

text \<open>\<^verbatim>\<open>timedelta(hours=h, minutes=m)\<close>.\<close>

definition timedelta_of :: "int \<Rightarrow> int \<Rightarrow> timedelta" where
  "timedelta_of h m =
     (let s = h * 3600 + m * 60
      in \<lparr>td_days = s div 86400, td_seconds = s mod 86400\<rparr>)"

definition total_seconds :: "timedelta \<Rightarrow> int" where
  "total_seconds d = td_days d * 86400 + td_seconds d"

text \<open>\<^verbatim>\<open>datetime.timezone\<close>: an offset and an optional name. \<^verbatim>\<open>timezone.utc\<close> has
  offset zero and no name.\<close>

record timezone =
  utcoffset :: timedelta
  tzname :: "string option"

definition timezone_utc :: timezone where
  "timezone_utc = \<lparr>utcoffset = timedelta_of 0 0, tzname = None\<rparr>"

subsection \<open>\<^verbatim>\<open>datetime\<close>, \<^verbatim>\<open>strftime\<close> and \<^verbatim>\<open>strptime\<close>\<close>

text \<open>A naive \<^verbatim>\<open>datetime\<close>. The constructor of the library accepts exactly the field
  values of \<open>valid_datetime\<close>.\<close>

record datetime =
  year :: nat
  month :: nat
  day :: nat
  hour :: nat
  minute :: nat
  second :: nat
  microsecond :: nat

definition is_leap :: "nat \<Rightarrow> bool" where
  "is_leap y = (y mod 4 = 0 \<and> (y mod 100 \<noteq> 0 \<or> y mod 400 = 0))"

definition days_in_month :: "nat \<Rightarrow> nat \<Rightarrow> nat" where
  "days_in_month y m =
     (if m = 2 then (if is_leap y then 29 else 28)
      else if m = 4 \<or> m = 6 \<or> m = 9 \<or> m = 11 then 30 else 31)"

definition valid_datetime :: "datetime \<Rightarrow> bool" where
  "valid_datetime t =
     (1 \<le> year t \<and> year t \<le> 9999 \<and> 1 \<le> month t \<and> month t \<le> 12 \<and>
      1 \<le> day t \<and> day t \<le> days_in_month (year t) (month t) \<and>
      hour t < 24 \<and> minute t < 60 \<and> second t < 60 \<and> microsecond t < 1000000)"

text \<open>A clock reading for the examples: midnight of 1 January 1970.\<close>

definition epoch :: datetime where
  "epoch = \<lparr>year = 1970, month = 1, day = 1, hour = 0, minute = 0, second = 0,
      microsecond = 0\<rparr>"

text \<open>\<^verbatim>\<open>datetime.strftime(t, '%Y%m%d%H%M%S')\<close>: month, day, hour, minute and second in two
  digits each. The year is printed by the C library, and glibc does not pad it: a year
  below 1000 has fewer than four digits. The microseconds are not printed.\<close>

definition strftime :: "datetime \<Rightarrow> string" where
  "strftime t =
     dec (year t) @ zpad 2 (dec (month t)) @ zpad 2 (dec (day t)) @
     zpad 2 (dec (hour t)) @ zpad 2 (dec (minute t)) @ zpad 2 (dec (second t))"

text \<open>
  \<^verbatim>\<open>datetime.strptime(s, '%Y%m%d%H%M%S')\<close> compiles the format into the regular expression
  \<^verbatim>\<open>(\d\d\d\d)(1[0-2]|0[1-9]|[1-9])(3[0-1]|[1-2]\d|0[1-9]|[1-9]| [1-9])\<close>
  \<^verbatim>\<open>(2[0-3]|[0-1]\d|\d)([0-5]\d|\d)(6[0-1]|[0-5]\d|\d)\<close>
  and matches it at the start of \<open>s\<close>. Each group below lists its matches in the order
  the backtracking matcher tries them, as pairs of the number read and the rest of the
  string; the first match of the whole expression is the one taken.
\<close>

definition digit_in :: "nat \<Rightarrow> nat \<Rightarrow> char \<Rightarrow> bool" where
  "digit_in lo hi c = (is_digit c \<and> lo \<le> digit_val c \<and> digit_val c \<le> hi)"

fun two :: "(char \<Rightarrow> bool) \<Rightarrow> (char \<Rightarrow> bool) \<Rightarrow> string \<Rightarrow> (nat \<times> string) list" where
  "two p q (a # b # r) = (if p a \<and> q b then [(digit_val a * 10 + digit_val b, r)] else [])"
| "two p q r = []"

fun one :: "(char \<Rightarrow> bool) \<Rightarrow> string \<Rightarrow> (nat \<times> string) list" where
  "one p (a # r) = (if p a then [(digit_val a, r)] else [])"
| "one p r = []"

fun blank_one :: "(char \<Rightarrow> bool) \<Rightarrow> string \<Rightarrow> (nat \<times> string) list" where
  "blank_one p (a # b # r) = (if a = CHR '' '' \<and> p b then [(digit_val b, r)] else [])"
| "blank_one p r = []"

fun re_Y :: "string \<Rightarrow> (nat \<times> string) list" where
  "re_Y (a # b # c # d # r) =
     (if is_digit a \<and> is_digit b \<and> is_digit c \<and> is_digit d
      then [(digit_val a * 1000 + digit_val b * 100 + digit_val c * 10 + digit_val d, r)]
      else [])"
| "re_Y r = []"

definition re_m :: "string \<Rightarrow> (nat \<times> string) list" where
  "re_m s = two (digit_in 1 1) (digit_in 0 2) s @ two (digit_in 0 0) (digit_in 1 9) s @
            one (digit_in 1 9) s"

definition re_d :: "string \<Rightarrow> (nat \<times> string) list" where
  "re_d s = two (digit_in 3 3) (digit_in 0 1) s @ two (digit_in 1 2) is_digit s @
            two (digit_in 0 0) (digit_in 1 9) s @ one (digit_in 1 9) s @
            blank_one (digit_in 1 9) s"

definition re_H :: "string \<Rightarrow> (nat \<times> string) list" where
  "re_H s = two (digit_in 2 2) (digit_in 0 3) s @ two (digit_in 0 1) is_digit s @
            one is_digit s"

definition re_M :: "string \<Rightarrow> (nat \<times> string) list" where
  "re_M s = two (digit_in 0 5) is_digit s @ one is_digit s"

definition re_S :: "string \<Rightarrow> (nat \<times> string) list" where
  "re_S s = two (digit_in 6 6) (digit_in 0 1) s @ two (digit_in 0 5) is_digit s @
            one is_digit s"

definition re_match :: "string \<Rightarrow> (datetime \<times> string) list" where
  "re_match s =
     List.bind (re_Y s) (\<lambda>(y, s1).
     List.bind (re_m s1) (\<lambda>(mo, s2).
     List.bind (re_d s2) (\<lambda>(d, s3).
     List.bind (re_H s3) (\<lambda>(h, s4).
     List.bind (re_M s4) (\<lambda>(mi, s5).
     List.bind (re_S s5) (\<lambda>(se, s6).
       [(\<lparr>year = y, month = mo, day = d, hour = h, minute = mi, second = se,
          microsecond = 0\<rparr>, s6)]))))))"

text \<open>No match, text left over after the match, and field values that are no date or
  time of day all raise \<^verbatim>\<open>ValueError\<close>.\<close>

definition strptime :: "string \<Rightarrow> error + datetime" where
  "strptime s =
     (case re_match s of
        [] \<Rightarrow> Inl ValueError
      | (t, rest) # others \<Rightarrow>
          if rest \<noteq> [] then Inl ValueError
          else if valid_datetime t then Inr t
          else Inl ValueError)"

section \<open>class TimeZone\<close>

record TimeZone =
  name :: string
  hours :: int
  minutes :: int

definition name_setter :: "pyval \<Rightarrow> error + string" where
  "name_setter v =
     (case v of
        VStr s \<Rightarrow> if length s < 1 then Inl ValueError else Inr s
      | _ \<Rightarrow> Inl ValueError)"

definition hours_setter :: "pyval \<Rightarrow> error + int" where
  "hours_setter v =
     (case as_int v of
        None \<Rightarrow> Inl ValueError
      | Some h \<Rightarrow> if h \<ge> 24 \<or> h \<le> - 24 then Inl ValueError else Inr h)"

definition minutes_setter :: "pyval \<Rightarrow> error + int" where
  "minutes_setter v =
     (case as_int v of
        None \<Rightarrow> Inl ValueError
      | Some m \<Rightarrow> if m \<ge> 60 \<or> m \<le> - 60 then Inl ValueError else Inr m)"

text \<open>\<^verbatim>\<open>TimeZone.__init__\<close>: the three setters run in this order, and the first that
  raises ends the construction.\<close>

definition TimeZone_init :: "pyval \<Rightarrow> pyval \<Rightarrow> pyval \<Rightarrow> error + TimeZone" where
  "TimeZone_init n h m =
     (case name_setter n of
        Inl e \<Rightarrow> Inl e
      | Inr n' \<Rightarrow>
          (case hours_setter h of
             Inl e \<Rightarrow> Inl e
           | Inr h' \<Rightarrow>
               (case minutes_setter m of
                  Inl e \<Rightarrow> Inl e
                | Inr m' \<Rightarrow> Inr \<lparr>name = n', hours = h', minutes = m'\<rparr>)))"

definition offset :: "TimeZone \<Rightarrow> timedelta" where
  "offset z = timedelta_of (hours z) (minutes z)"

section \<open>Process-wide state\<close>

text \<open>
  The two class attributes the program mutates: \<^verbatim>\<open>TransactionID.trans_num\<close>, and
  \<^verbatim>\<open>Account._tz\<close>, which does not exist until \<^verbatim>\<open>set_tz\<close> has run once. Every
  operation takes the state and returns it, also when it raises. The reading of the
  clock, \<^verbatim>\<open>datetime.utcnow()\<close>, is an argument \<open>now\<close> of the operations that may take it.
\<close>

record globals =
  trans_num :: int
  account_tz :: "timezone option"

definition process_start :: globals where
  "process_start = \<lparr>trans_num = - 1, account_tz = None\<rparr>"

text \<open>\<^verbatim>\<open>Account.interest_rate = 0.5\<close>, and \<^verbatim>\<open>interest_rate / 100\<close>: the binary64
  number nearest to 0.005.\<close>

definition interest_rate :: pyfloat where
  "interest_rate = FFin False (1 / 2)"

definition monthly_rate :: pyfloat where
  "monthly_rate = (case interest_rate of FFin s m \<Rightarrow> fround s (m / 100) | x \<Rightarrow> x)"

section \<open>class TransactionID\<close>

text \<open>
  An instance has no \<^verbatim>\<open>trans_num\<close> attribute of its own after \<^verbatim>\<open>__init__\<close>:
  \<^verbatim>\<open>inc_trans_num\<close> is a class method and rebinds the attribute of the class.
  Only \<^verbatim>\<open>parse_confirmation_code\<close> gives an instance one (\<open>own_trans_num\<close>).
\<close>

record TransactionID =
  trans_code :: pyval
  trans_type :: string
  account_num :: pyval
  utc_time :: datetime
  tz :: timezone
  own_trans_num :: "int option"

text \<open>The \<^verbatim>\<open>utc_time\<close> keyword argument: \<^verbatim>\<open>None\<close>, a \<^verbatim>\<open>datetime\<close> or a \<^verbatim>\<open>str\<close>.\<close>

datatype time_arg = NoTime | AsDatetime datetime | AsStr string

text \<open>\<^verbatim>\<open>utc_time or datetime.utcnow()\<close>: \<^verbatim>\<open>None\<close> and the empty string are false.\<close>

definition or_utcnow :: "time_arg \<Rightarrow> datetime \<Rightarrow> time_arg" where
  "or_utcnow v now =
     (case v of
        NoTime \<Rightarrow> AsDatetime now
      | AsDatetime t \<Rightarrow> AsDatetime t
      | AsStr s \<Rightarrow> if s = [] then AsDatetime now else AsStr s)"

definition utc_time_setter :: "time_arg \<Rightarrow> error + datetime" where
  "utc_time_setter v =
     (case v of
        AsDatetime t \<Rightarrow> Inr t
      | AsStr s \<Rightarrow> strptime s
      | NoTime \<Rightarrow> Inl TypeError)"

definition inc_trans_num :: "globals \<Rightarrow> globals" where
  "inc_trans_num g = g\<lparr>trans_num := trans_num g + 1\<rparr>"

text \<open>\<^verbatim>\<open>TransactionID.__init__\<close>, statement by statement: the letter is looked up first,
  then the time is set, and the counter moves last.\<close>

definition TransactionID_init ::
  "globals \<Rightarrow> datetime \<Rightarrow> pyval \<Rightarrow> pyval \<Rightarrow> time_arg \<Rightarrow> timezone option \<Rightarrow>
   globals \<times> (error + TransactionID)" where
  "TransactionID_init g now code acct utc zone =
     (case str_getitem ''DWIX'' code of
        Inl e \<Rightarrow> (g, Inl e)
      | Inr letter \<Rightarrow>
          (case utc_time_setter (or_utcnow utc now) of
             Inl e \<Rightarrow> (g, Inl e)
           | Inr t \<Rightarrow>
               (inc_trans_num g,
                Inr \<lparr>trans_code = code, trans_type = letter, account_num = acct,
                     utc_time = t,
                     tz = (case zone of None \<Rightarrow> timezone_utc | Some z \<Rightarrow> z),
                     own_trans_num = None\<rparr>)))"

text \<open>What \<^verbatim>\<open>self.trans_num\<close> evaluates to: the instance's attribute when it has one,
  the class's current value otherwise.\<close>

definition self_trans_num :: "globals \<Rightarrow> TransactionID \<Rightarrow> int" where
  "self_trans_num g t = (case own_trans_num t of Some k \<Rightarrow> k | None \<Rightarrow> trans_num g)"

text \<open>The property \<^verbatim>\<open>transaction_num\<close>, the confirmation code. It raises when the
  account number or the sequence number cannot be rendered.\<close>

definition transaction_num :: "globals \<Rightarrow> TransactionID \<Rightarrow> error + string" where
  "transaction_num g t =
     and_then (py_str (account_num t)) (\<lambda>a.
     and_then (str_int (self_trans_num g t)) (\<lambda>k.
       Inr (trans_type t @ ''-'' @ a @ ''-'' @ strftime (utc_time t) @ ''-'' @ k)))"

definition repr :: "globals \<Rightarrow> TransactionID \<Rightarrow> error + string" where
  "repr g t = and_then (transaction_num g t) (\<lambda>c. Inr (''TransactionID('' @ c @ '')''))"

section \<open>class Account\<close>

text \<open>The balance is the object the program stores: it keeps the class of the number
  it was given or that the arithmetic returned.\<close>

record Account =
  account_number :: pyval
  first_name :: string
  last_name :: string
  balance :: pyval

definition first_name_setter :: "pyval \<Rightarrow> error + string" where
  "first_name_setter v =
     (case v of
        VStr s \<Rightarrow> if length s < 1 then Inl ValueError else Inr (strip s)
      | _ \<Rightarrow> Inl TypeError)"

definition last_name_setter :: "pyval \<Rightarrow> error + string" where
  "last_name_setter v = (case v of VStr s \<Rightarrow> Inr (strip s) | _ \<Rightarrow> Inl TypeError)"

text \<open>The \<^verbatim>\<open>tz\<close> argument of \<^verbatim>\<open>set_tz\<close>: a \<^verbatim>\<open>TimeZone\<close>, a \<^verbatim>\<open>datetime.timezone\<close>,
  or something else.\<close>

datatype tz_arg = OfTimeZone TimeZone | OfTimezone timezone | NotTz pyval

text \<open>\<^verbatim>\<open>timezone(offset, name)\<close>: the library refuses an offset of a day or more.\<close>

definition timezone_of :: "timedelta \<Rightarrow> string \<Rightarrow> error + timezone" where
  "timezone_of d n =
     (if - 86400 < total_seconds d \<and> total_seconds d < 86400
      then Inr \<lparr>utcoffset = d, tzname = Some n\<rparr> else Inl ValueError)"

definition get_tz :: "globals \<Rightarrow> error + timezone" where
  "get_tz g = (case account_tz g of None \<Rightarrow> Inl AttributeError | Some z \<Rightarrow> Inr z)"

definition set_tz :: "globals \<Rightarrow> tz_arg \<Rightarrow> globals \<times> (error + unit)" where
  "set_tz g a =
     (case a of
        OfTimeZone z \<Rightarrow>
          (case timezone_of (offset z) (name z) of
             Inl e \<Rightarrow> (g, Inl e)
           | Inr z' \<Rightarrow> (g\<lparr>account_tz := Some z'\<rparr>, Inr ()))
      | OfTimezone z \<Rightarrow> (g\<lparr>account_tz := Some z\<rparr>, Inr ())
      | NotTz v \<Rightarrow> (g, Inl TypeError))"

text \<open>The test \<^verbatim>\<open>not (isinstance(v, Real) or isinstance(v, Decimal)) or v < 0\<close> that
  guards the balance and the amounts: \<open>Inr True\<close> when the value is refused, and the
  exception when the comparison itself raises.\<close>

definition refused :: "pyval \<Rightarrow> error + bool" where
  "refused v = (case as_num v of None \<Rightarrow> Inr True | Some x \<Rightarrow> num_lt0 x)"

text \<open>\<^verbatim>\<open>Account.__init__\<close>: first name, last name, \<^verbatim>\<open>set_tz\<close>, and the balance last.\<close>

definition Account_init ::
  "globals \<Rightarrow> pyval \<Rightarrow> pyval \<Rightarrow> pyval \<Rightarrow> tz_arg \<Rightarrow> pyval \<Rightarrow> globals \<times> (error + Account)" where
  "Account_init g num fname lname zone bal =
     (case first_name_setter fname of
        Inl e \<Rightarrow> (g, Inl e)
      | Inr f \<Rightarrow>
          (case last_name_setter lname of
             Inl e \<Rightarrow> (g, Inl e)
           | Inr l \<Rightarrow>
               (case set_tz g zone of
                  (g', Inl e) \<Rightarrow> (g', Inl e)
                | (g', Inr u) \<Rightarrow>
                    (case refused bal of
                       Inl e \<Rightarrow> (g', Inl e)
                     | Inr r \<Rightarrow>
                         if r then (g', Inl ValueError)
                         else (g', Inr \<lparr>account_number = num, first_name = f,
                                         last_name = l, balance = bal\<rparr>)))))"

text \<open>The methods return the state, the account as the call leaves it, and the receipt
  or the exception. The amount is a number once the guard has let it through.\<close>

definition the_num :: "pyval \<Rightarrow> num" where
  "the_num v = (case as_num v of Some x \<Rightarrow> x | None \<Rightarrow> NInt 0)"

definition deposit ::
  "globals \<Rightarrow> datetime \<Rightarrow> Account \<Rightarrow> pyval \<Rightarrow> globals \<times> Account \<times> (error + TransactionID)" where
  "deposit g now a v =
     (case refused v of
        Inl e \<Rightarrow> (g, a, Inl e)
      | Inr r \<Rightarrow>
          if r then (g, a, Inl ValueError)
          else
            (case py_op Plus (balance a) (the_num v) of
               Inl e \<Rightarrow> (g, a, Inl e)
             | Inr b \<Rightarrow>
                 (let a' = a\<lparr>balance := b\<rparr>;
                      (g', r) = TransactionID_init g now (VInt 0) (account_number a') NoTime None
                  in (g', a', r))))"

definition withdraw ::
  "globals \<Rightarrow> datetime \<Rightarrow> Account \<Rightarrow> pyval \<Rightarrow> globals \<times> Account \<times> (error + TransactionID)" where
  "withdraw g now a v =
     (case refused v of
        Inl e \<Rightarrow> (g, a, Inl e)
      | Inr r \<Rightarrow>
          if r then (g, a, Inl ValueError)
          else
            (case py_op Minus (balance a) (the_num v) of
               Inl e \<Rightarrow> (g, a, Inl e)
             | Inr b \<Rightarrow>
                 (case py_lt0 b of
                    Inl e \<Rightarrow> (g, a, Inl e)
                  | Inr short \<Rightarrow>
                      if short then
                        (case TransactionID_init g now (VInt 3) (account_number a) NoTime None of
                           (g', Inl e) \<Rightarrow> (g', a, Inl e)
                         | (g', Inr t) \<Rightarrow>
                             (case repr g' t of
                                Inl e \<Rightarrow> (g', a, Inl e)
                              | Inr m \<Rightarrow>
                                  (g', a, Inl (TransactionAbort (''Insufficient balance: '' @ m)))))
                      else
                        (let a' = a\<lparr>balance := b\<rparr>;
                             (g', r) =
                               TransactionID_init g now (VInt 1) (account_number a') NoTime None
                         in (g', a', r)))))"

text \<open>\<^verbatim>\<open>pay_monthly_interest\<close>: the product with the rate is a \<^verbatim>\<open>float\<close>, and so is the
  balance afterwards; a \<^verbatim>\<open>Decimal\<close> balance raises \<^verbatim>\<open>TypeError\<close>.\<close>

definition pay_monthly_interest ::
  "globals \<Rightarrow> datetime \<Rightarrow> Account \<Rightarrow> globals \<times> Account \<times> (error + TransactionID)" where
  "pay_monthly_interest g now a =
     (case mul_float (balance a) monthly_rate of
        Inl e \<Rightarrow> (g, a, Inl e)
      | Inr interest_amount \<Rightarrow>
          (case py_op Plus (balance a) (NFloat interest_amount) of
             Inl e \<Rightarrow> (g, a, Inl e)
           | Inr b \<Rightarrow>
               (let a' = a\<lparr>balance := b\<rparr>;
                    (g', r) = TransactionID_init g now (VInt 2) (account_number a') NoTime None
                in (g', a', r))))"

text \<open>\<^verbatim>\<open>Account.parse_confirmation_code\<close>. The arguments of the constructor call are
  evaluated left to right before it runs, and the fourth field is converted only after
  the instance exists.\<close>

definition parse_confirmation_code ::
  "globals \<Rightarrow> datetime \<Rightarrow> string \<Rightarrow> globals \<times> (error + TransactionID)" where
  "parse_confirmation_code g now confirmation_num =
     (case split CHR ''-'' confirmation_num of
        [ttype, anum, utc, tnum] \<Rightarrow>
          if \<not> str_in ttype ''DWIX'' then (g, Inl TransactionCodeError)
          else
            (case str_index ''DWIX'' ttype of
               Inl e \<Rightarrow> (g, Inl e)
             | Inr code \<Rightarrow>
                 (case py_int anum of
                    Inl e \<Rightarrow> (g, Inl e)
                  | Inr n \<Rightarrow>
                      (case get_tz g of
                         Inl e \<Rightarrow> (g, Inl e)
                       | Inr z \<Rightarrow>
                           (case TransactionID_init g now (VInt (int code)) (VInt n)
                                   (AsStr utc) (Some z) of
                              (g', Inl e) \<Rightarrow> (g', Inl e)
                            | (g', Inr t) \<Rightarrow>
                                (case py_int tnum of
                                   Inl e \<Rightarrow> (g', Inl e)
                                 | Inr k \<Rightarrow> (g', Inr (t\<lparr>own_trans_num := Some k\<rparr>)))))))
      | _ \<Rightarrow> (g, Inl ValueError))"

section \<open>Sequences of calls\<close>

text \<open>Every entry point that touches the process-wide state, as a call with its
  arguments; \<open>run\<close> performs a list of them, each with the clock reading it is given,
  whether or not it raises.\<close>

datatype call =
    NewTransactionID pyval pyval time_arg "timezone option"
  | NewAccount pyval pyval pyval tz_arg pyval
  | SetTz tz_arg
  | Deposit Account pyval
  | Withdraw Account pyval
  | PayMonthlyInterest Account
  | ParseConfirmationCode string

fun exec :: "globals \<Rightarrow> datetime \<times> call \<Rightarrow> globals" where
  "exec g (now, NewTransactionID code acct utc zone) =
     fst (TransactionID_init g now code acct utc zone)"
| "exec g (now, NewAccount num fname lname zone bal) =
     fst (Account_init g num fname lname zone bal)"
| "exec g (now, SetTz zone) = fst (set_tz g zone)"
| "exec g (now, Deposit a v) = fst (deposit g now a v)"
| "exec g (now, Withdraw a v) = fst (withdraw g now a v)"
| "exec g (now, PayMonthlyInterest a) = fst (pay_monthly_interest g now a)"
| "exec g (now, ParseConfirmationCode s) = fst (parse_confirmation_code g now s)"

definition run :: "globals \<Rightarrow> (datetime \<times> call) list \<Rightarrow> globals" where
  "run g cs = foldl exec g cs"

section \<open>Properties of TimeZone\<close>

lemma total_seconds_timedelta_of: "total_seconds (timedelta_of h m) = h * 3600 + m * 60"
  by (simp add: total_seconds_def timedelta_of_def Let_def)

lemma TimeZone_init_Inr:
  "(TimeZone_init n h m = Inr z) =
        (n = VStr (name z) \<and> name z \<noteq> [] \<and>
         as_int h = Some (hours z) \<and> - 24 < hours z \<and> hours z < 24 \<and>
         as_int m = Some (minutes z) \<and> - 60 < minutes z \<and> minutes z < 60)"
  by (cases z) (auto simp: TimeZone_init_def name_setter_def hours_setter_def minutes_setter_def
      split: pyval.splits option.splits sum.splits if_splits)

lemma TimeZone_init_Inl: "TimeZone_init n h m = Inl e \<Longrightarrow> e = ValueError"
  by (auto simp: TimeZone_init_def name_setter_def hours_setter_def minutes_setter_def
      split: pyval.splits option.splits sum.splits if_splits)

lemma TimeZone_init_ok:
  "(TimeZone_init n h m \<noteq> Inl ValueError) =
     ((\<exists>s. n = VStr s \<and> s \<noteq> []) \<and>
      (\<exists>i. as_int h = Some i \<and> - 24 < i \<and> i < 24) \<and>
      (\<exists>j. as_int m = Some j \<and> - 60 < j \<and> j < 60))"
  by (auto simp: TimeZone_init_def name_setter_def hours_setter_def minutes_setter_def
      split: pyval.splits option.splits sum.splits if_splits)

text \<open>
  C8. The \<^verbatim>\<open>TimeZone\<close> constructor succeeds exactly when the name is a non-empty string,
  the hours are an integer strictly between -24 and 24 and the minutes are an integer
  strictly between -60 and 60; every other argument triple raises \<^verbatim>\<open>ValueError\<close>.
  On success the fields are the arguments, and the offset is
  \<open>hours * 3600 + minutes * 60\<close> seconds. (An integer is whatever passes
  \<^verbatim>\<open>isinstance(v, int)\<close>, so \<^verbatim>\<open>True\<close> and \<^verbatim>\<open>False\<close> count as 1 and 0.)
\<close>

theorem TimeZone_init_spec:
  "(TimeZone_init n h m \<noteq> Inl ValueError) =
     ((\<exists>s. n = VStr s \<and> s \<noteq> []) \<and>
      (\<exists>i. as_int h = Some i \<and> - 24 < i \<and> i < 24) \<and>
      (\<exists>j. as_int m = Some j \<and> - 60 < j \<and> j < 60))
   \<and> (\<forall>z. (TimeZone_init n h m = Inr z) =
        (n = VStr (name z) \<and> name z \<noteq> [] \<and>
         as_int h = Some (hours z) \<and> - 24 < hours z \<and> hours z < 24 \<and>
         as_int m = Some (minutes z) \<and> - 60 < minutes z \<and> minutes z < 60))
   \<and> (\<forall>z. TimeZone_init n h m = Inr z \<longrightarrow>
        total_seconds (offset z) = hours z * 3600 + minutes z * 60)
   \<and> (\<forall>e. TimeZone_init n h m = Inl e \<longrightarrow> e = ValueError)"
  using TimeZone_init_ok [of n h m] TimeZone_init_Inr [of n h m] TimeZone_init_Inl [of n h m]
  by (simp add: offset_def total_seconds_timedelta_of)

theorem TimeZone_init_spec_witness:
  "TimeZone_init (VStr ''IST'') (VInt 5) (VInt 30) = Inr \<lparr>name = ''IST'', hours = 5, minutes = 30\<rparr>
   \<and> total_seconds (offset \<lparr>name = ''IST'', hours = 5, minutes = 30\<rparr>) = 19800
   \<and> TimeZone_init (VStr ''X'') (VInt 24) (VInt 0) = Inl ValueError
   \<and> TimeZone_init (VStr ''X'') (VInt (- 23)) (VInt (- 59)) \<noteq> Inl ValueError"
  using TimeZone_init_spec [of "VStr ''IST''" "VInt 5" "VInt 30"]
    TimeZone_init_spec [of "VStr ''X''" "VInt 24" "VInt 0"]
    TimeZone_init_spec [of "VStr ''X''" "VInt (- 23)" "VInt (- 59)"]
  by (simp add: TimeZone_init_def name_setter_def hours_setter_def minutes_setter_def)

section \<open>Properties of Account construction\<close>

lemma strip_all_space: "\<forall>c\<in>set s. is_space c \<Longrightarrow> strip s = []"
proof -
  assume "\<forall>c\<in>set s. is_space c"
  then have "dropWhile is_space s = []" by (induction s) auto
  then show ?thesis unfolding strip_def by (simp del: dropWhile_eq_Nil_conv)
qed

lemma timezone_of_TimeZone_init:
  assumes "TimeZone_init n h m = Inr z"
  shows "timezone_of (offset z) (name z) = Inr \<lparr>utcoffset = offset z, tzname = Some (name z)\<rparr>"
proof -
  from assms have "- 24 < hours z" "hours z < 24" "- 60 < minutes z" "minutes z < 60"
    by (auto simp: TimeZone_init_def name_setter_def hours_setter_def minutes_setter_def
      split: pyval.splits option.splits sum.splits if_splits)
  then show ?thesis
    by (simp add: timezone_of_def offset_def total_seconds_timedelta_of)
qed

text \<open>
  C9. A first name that is not empty but holds whitespace only passes the length check,
  which looks at the argument before it is stripped; with a string for the last name, a
  time zone \<^verbatim>\<open>set_tz\<close> accepts and a balance the guard lets through (a number that is
  not negative) the construction succeeds, and the first name it stores is the empty
  string. The empty string itself is refused with \<^verbatim>\<open>ValueError\<close>.
\<close>

theorem Account_init_blank_first_name:
  assumes "s \<noteq> []" and "\<forall>c\<in>set s. is_space c"
    and "set_tz g zone = (g', Inr ())"
    and "refused bal = Inr False"
  shows "Account_init g num (VStr s) (VStr l) zone bal =
           (g', Inr \<lparr>account_number = num, first_name = [], last_name = strip l, balance = bal\<rparr>)
         \<and> Account_init g num (VStr []) (VStr l) zone bal = (g, Inl ValueError)"
  using assms
  by (cases s) (simp_all add: Account_init_def first_name_setter_def last_name_setter_def
      strip_all_space)

theorem Account_init_blank_first_name_witness:
  "Account_init process_start (VInt 1) (VStr '' '') (VStr ''Doe '') (OfTimezone timezone_utc) (VInt 0) =
     (process_start\<lparr>account_tz := Some timezone_utc\<rparr>,
      Inr \<lparr>account_number = VInt 1, first_name = [], last_name = ''Doe'', balance = VInt 0\<rparr>)"
proof -
  have sp: "\<forall>c\<in>set '' ''. is_space c" by (simp add: is_space_def)
  have st: "strip ''Doe '' = ''Doe''" by (simp add: strip_def is_space_def)
  have rf: "refused (VInt 0) = Inr False" by (simp add: refused_def)
  show ?thesis
    using Account_init_blank_first_name [of "'' ''" process_start "OfTimezone timezone_utc"
        "process_start\<lparr>account_tz := Some timezone_utc\<rparr>" "VInt 0" "VInt 1" "''Doe ''"] sp st rf
    by (simp add: set_tz_def)
qed

text \<open>
  C10. \<^verbatim>\<open>Account.__init__\<close> calls \<^verbatim>\<open>set_tz\<close> before it looks at the balance. With
  valid names and a valid time zone (a \<^verbatim>\<open>timezone\<close>, or a \<^verbatim>\<open>TimeZone\<close> its constructor
  returned), a balance that is negative or no number raises \<^verbatim>\<open>ValueError\<close>, and the
  state the failed call leaves holds the new time zone: \<^verbatim>\<open>get_tz\<close> returns it, and
  every identifier \<^verbatim>\<open>parse_confirmation_code\<close> builds from then on carries it.
\<close>

theorem Account_init_sets_tz_before_balance:
  assumes names: "fname = VStr s" "s \<noteq> []" "lname = VStr l"
    and zone: "zone = OfTimezone z \<or>
       (\<exists>n h m v. TimeZone_init n h m = Inr v \<and> zone = OfTimeZone v \<and>
          z = \<lparr>utcoffset = offset v, tzname = Some (name v)\<rparr>)"
    and bal: "as_num bal = None \<or> (\<exists>x. as_num bal = Some x \<and> num_lt0 x = Inr True)"
  shows "Account_init g num fname lname zone bal = (g\<lparr>account_tz := Some z\<rparr>, Inl ValueError)
       \<and> get_tz (fst (Account_init g num fname lname zone bal)) = Inr z
       \<and> (\<forall>now c g' t. parse_confirmation_code (fst (Account_init g num fname lname zone bal)) now c
              = (g', Inr t) \<longrightarrow> tz t = z)"
proof -
  have st: "set_tz g zone = (g\<lparr>account_tz := Some z\<rparr>, Inr ())"
    using zone by (auto simp: set_tz_def timezone_of_TimeZone_init)
  have fn: "first_name_setter fname = Inr (strip s)"
    using names by (cases s) (simp_all add: first_name_setter_def)
  have rf: "refused bal = Inr True"
    using bal by (auto simp: refused_def)
  have ai: "Account_init g num fname lname zone bal = (g\<lparr>account_tz := Some z\<rparr>, Inl ValueError)"
    using rf fn st names(3) by (simp add: Account_init_def last_name_setter_def)
  have p: "tz t = z" if "parse_confirmation_code (g\<lparr>account_tz := Some z\<rparr>) now c = (g', Inr t)"
    for now c g' t
    using that
    by (auto simp: parse_confirmation_code_def get_tz_def TransactionID_init_def
        split: list.splits if_splits sum.splits prod.splits)
  show ?thesis using ai p by (simp add: get_tz_def)
qed

theorem Account_init_sets_tz_before_balance_witness:
  "Account_init (process_start\<lparr>account_tz := Some timezone_utc\<rparr>) (VInt 2) (VStr ''Ann'')
      (VStr ''Lee'') (OfTimeZone \<lparr>name = ''IST'', hours = 5, minutes = 30\<rparr>) (VInt (- 1)) =
     (process_start\<lparr>account_tz :=
        Some \<lparr>utcoffset = \<lparr>td_days = 0, td_seconds = 19800\<rparr>, tzname = Some ''IST''\<rparr>\<rparr>,
      Inl ValueError)
   \<and> Account_init process_start (VInt 2) (VStr ''Ann'') (VStr ''Lee'')
        (OfTimezone timezone_utc) (VStr ''ten'') =
     (process_start\<lparr>account_tz := Some timezone_utc\<rparr>, Inl ValueError)"
proof -
  let ?v = "\<lparr>name = ''IST'', hours = 5, minutes = 30\<rparr>"
  let ?z = "\<lparr>utcoffset = \<lparr>td_days = 0, td_seconds = 19800\<rparr>, tzname = Some ''IST''\<rparr>"
  have i: "TimeZone_init (VStr ''IST'') (VInt 5) (VInt 30) = Inr ?v"
    by (simp add: TimeZone_init_def name_setter_def hours_setter_def minutes_setter_def)
  have o: "?z = \<lparr>utcoffset = offset ?v, tzname = Some (name ?v)\<rparr>"
    by (simp add: offset_def timedelta_of_def)
  have zone1: "OfTimeZone ?v = OfTimezone ?z \<or>
       (\<exists>n h m v. TimeZone_init n h m = Inr v \<and> OfTimeZone ?v = OfTimeZone v \<and>
          ?z = \<lparr>utcoffset = offset v, tzname = Some (name v)\<rparr>)"
    using i o by blast
  have bal1: "as_num (VInt (- 1)) = None \<or>
       (\<exists>x. as_num (VInt (- 1)) = Some x \<and> num_lt0 x = Inr True)"
    by simp
  have bal2: "as_num (VStr ''ten'') = None \<or>
       (\<exists>x. as_num (VStr ''ten'') = Some x \<and> num_lt0 x = Inr True)"
    by simp
  have zone2: "OfTimezone timezone_utc = OfTimezone timezone_utc \<or>
       (\<exists>n h m v. TimeZone_init n h m = Inr v \<and> OfTimezone timezone_utc = OfTimeZone v \<and>
          timezone_utc = \<lparr>utcoffset = offset v, tzname = Some (name v)\<rparr>)"
    by simp
  show ?thesis
    using Account_init_sets_tz_before_balance [OF refl _ refl zone1 bal1,
        of "''Ann''" "process_start\<lparr>account_tz := Some timezone_utc\<rparr>" "VInt 2" "''Lee''"]
      Account_init_sets_tz_before_balance [OF refl _ refl zone2 bal2,
        of "''Ann''" process_start "VInt 2" "''Lee''"]
    by simp
qed

section \<open>Properties of TransactionID and of the account operations\<close>

lemma and_then_simps [simp]:
  "and_then (Inl e) f = Inl e"
  "and_then (Inr x) f = f x"
  by (simp_all add: and_then_def)

lemma str_getitem_int:
  "as_int code = Some c \<Longrightarrow>
   str_getitem s code =
     (let n = int (length s); j = (if c < 0 then c + n else c)
      in if 0 \<le> j \<and> j < n then Inr [s ! nat j] else Inl IndexError)"
  by (cases code) (simp_all add: str_getitem_def)

lemma TransactionID_init_fresh:
  "as_int code = Some c \<Longrightarrow> - 4 \<le> c \<Longrightarrow> c < 4 \<Longrightarrow>
   TransactionID_init g now code acct NoTime zone =
     (inc_trans_num g,
      Inr \<lparr>trans_code = code, trans_type = [''DWIX'' ! nat (if c < 0 then c + 4 else c)],
           account_num = acct, utc_time = now,
           tz = (case zone of None \<Rightarrow> timezone_utc | Some z \<Rightarrow> z), own_trans_num = None\<rparr>)"
  by (simp add: TransactionID_init_def str_getitem_int or_utcnow_def utc_time_setter_def Let_def)

lemma refused_exact: "as_exact v = Some x \<Longrightarrow> refused v = Inr (x < 0)"
  by (cases v) (auto simp: refused_def split: if_splits)

lemma py_lt0_exact: "as_exact v = Some x \<Longrightarrow> py_lt0 v = Inr (x < 0)"
  by (cases v) (auto simp: py_lt0_def split: if_splits)

lemma as_exact_num:
  "as_exact v = Some y \<Longrightarrow>
   (\<exists>j. as_num v = Some (NInt j) \<and> y = of_int j) \<or> as_num v = Some (NFrac y)"
  by (cases v) auto

lemma num_op_exact:
  "num_op f (NInt i) (NInt j) =
     Inr (NInt (case f of Plus \<Rightarrow> i + j | Minus \<Rightarrow> i - j))"
  "num_op f (NInt i) (NFrac q) =
     Inr (NFrac (case f of Plus \<Rightarrow> of_int i + q | Minus \<Rightarrow> of_int i - q))"
  "num_op f (NFrac p) (NInt j) =
     Inr (NFrac (case f of Plus \<Rightarrow> p + of_int j | Minus \<Rightarrow> p - of_int j))"
  "num_op f (NFrac p) (NFrac q) = Inr (NFrac (case f of Plus \<Rightarrow> p + q | Minus \<Rightarrow> p - q))"
  by simp_all

lemma py_op_exact:
  assumes "as_exact b = Some x" and "as_exact v = Some y"
  shows "\<exists>r. py_op f b (the_num v) = Inr r \<and>
             as_exact r = Some (case f of Plus \<Rightarrow> x + y | Minus \<Rightarrow> x - y)"
proof -
  from as_exact_num [OF assms(1)] show ?thesis
  proof
    assume "\<exists>i. as_num b = Some (NInt i) \<and> x = of_int i"
    then obtain i where i: "as_num b = Some (NInt i)" "x = of_int i" by blast
    from as_exact_num [OF assms(2)] show ?thesis
    proof
      assume "\<exists>j. as_num v = Some (NInt j) \<and> y = of_int j"
      then obtain j where j: "as_num v = Some (NInt j)" "y = of_int j" by blast
      show ?thesis by (cases f) (simp_all add: py_op_def the_num_def i j)
    next
      assume j: "as_num v = Some (NFrac y)"
      show ?thesis by (cases f) (simp_all add: py_op_def the_num_def i j)
    qed
  next
    assume i: "as_num b = Some (NFrac x)"
    from as_exact_num [OF assms(2)] show ?thesis
    proof
      assume "\<exists>j. as_num v = Some (NInt j) \<and> y = of_int j"
      then obtain j where j: "as_num v = Some (NInt j)" "y = of_int j" by blast
      show ?thesis by (cases f) (simp_all add: py_op_def the_num_def i j)
    next
      assume j: "as_num v = Some (NFrac y)"
      show ?thesis by (cases f) (simp_all add: py_op_def the_num_def i j)
    qed
  qed
qed


lemma deposit_ok:
  "refused v = Inr False \<Longrightarrow> py_op Plus (balance a) (the_num v) = Inr b \<Longrightarrow>
   deposit g now a v =
     (inc_trans_num g, a\<lparr>balance := b\<rparr>,
      Inr \<lparr>trans_code = VInt 0, trans_type = ''D'', account_num = account_number a,
           utc_time = now, tz = timezone_utc, own_trans_num = None\<rparr>)"
  by (simp add: deposit_def TransactionID_init_fresh [of _ 0])


lemma withdraw_ok:
  "refused v = Inr False \<Longrightarrow> py_op Minus (balance a) (the_num v) = Inr b \<Longrightarrow>
   py_lt0 b = Inr False \<Longrightarrow>
   withdraw g now a v =
     (inc_trans_num g, a\<lparr>balance := b\<rparr>,
      Inr \<lparr>trans_code = VInt 1, trans_type = ''W'', account_num = account_number a,
           utc_time = now, tz = timezone_utc, own_trans_num = None\<rparr>)"
  by (simp add: withdraw_def TransactionID_init_fresh [of _ 1])

lemma withdraw_raises:
  "refused v = Inr False \<Longrightarrow> py_op Minus (balance a) (the_num v) = Inl e \<Longrightarrow>
   withdraw g now a v = (g, a, Inl e)"
  by (simp add: withdraw_def)

lemma withdraw_short:
  "refused v = Inr False \<Longrightarrow> py_op Minus (balance a) (the_num v) = Inr b \<Longrightarrow>
   py_lt0 b = Inr True \<Longrightarrow>
   withdraw g now a v =
     (inc_trans_num g, a,
      case repr (inc_trans_num g)
          \<lparr>trans_code = VInt 3, trans_type = ''X'', account_num = account_number a,
           utc_time = now, tz = timezone_utc, own_trans_num = None\<rparr> of
        Inl e \<Rightarrow> Inl e
      | Inr m \<Rightarrow> Inl (TransactionAbort (''Insufficient balance: '' @ m)))"
  by (simp add: withdraw_def TransactionID_init_fresh [of _ 3] split: sum.splits)




text \<open>
  C6, as the specification states it, fails: the constructor does not check the code, it
  subscripts the string \<^verbatim>\<open>'DWIX'\<close> with it. Python reads a negative index from the end,
  so the code \<open>-1\<close> builds an identifier of type X; and a slice is a subscript too, so
  the code \<^verbatim>\<open>slice(0, 2)\<close> builds an identifier whose type is \<^verbatim>\<open>'DW'\<close>.
\<close>

theorem TransactionID_init_negative_code:
  "TransactionID_init process_start epoch (VInt (- 1)) (VInt 7) NoTime None =
     (\<lparr>trans_num = 0, account_tz = None\<rparr>,
      Inr \<lparr>trans_code = VInt (- 1), trans_type = ''X'', account_num = VInt 7,
           utc_time = epoch, tz = timezone_utc, own_trans_num = None\<rparr>)
   \<and> TransactionID_init process_start epoch (VSlice (Some 0) (Some 2) None) (VInt 7) NoTime None =
     (\<lparr>trans_num = 0, account_tz = None\<rparr>,
      Inr \<lparr>trans_code = VSlice (Some 0) (Some 2) None, trans_type = ''DW'', account_num = VInt 7,
           utc_time = epoch, tz = timezone_utc, own_trans_num = None\<rparr>)"
proof -
  have "[0 ..< 2] = [0, Suc 0]" by (simp add: upt_rec)
  then show ?thesis
    by (simp add: TransactionID_init_def str_getitem_def str_slice_def slice_bound_def
        or_utcnow_def utc_time_setter_def inc_trans_num_def process_start_def)
qed

text \<open>
  C6, amended. An \<^verbatim>\<open>int\<close> code (a \<^verbatim>\<open>bool\<close> included) below \<open>-4\<close> or above 3 raises
  \<^verbatim>\<open>IndexError\<close>; a code that is \<^verbatim>\<open>None\<close>, a \<^verbatim>\<open>float\<close>, a \<^verbatim>\<open>Fraction\<close>, a
  \<^verbatim>\<open>Decimal\<close> or a \<^verbatim>\<open>str\<close> raises \<^verbatim>\<open>TypeError\<close>; a slice with step 0 raises
  \<^verbatim>\<open>ValueError\<close>. In these cases nothing is constructed and the counter stays. An
  \<^verbatim>\<open>int\<close> from \<open>-4\<close> to 3 is accepted, and with no explicit time the identifier built has
  the letter at position \<open>c mod 4\<close> of \<^verbatim>\<open>'DWIX'\<close>; a slice with another step is accepted
  as well, and the type of the identifier is the substring it selects.
\<close>

theorem TransactionID_init_code_range:
  "(as_int code = None \<and> \<not> is_slice code \<longrightarrow>
      TransactionID_init g now code acct utc zone = (g, Inl TypeError))
   \<and> (\<forall>c. as_int code = Some c \<and> (c < - 4 \<or> 4 \<le> c) \<longrightarrow>
      TransactionID_init g now code acct utc zone = (g, Inl IndexError))
   \<and> (\<forall>c. as_int code = Some c \<and> - 4 \<le> c \<and> c < 4 \<longrightarrow>
      TransactionID_init g now code acct NoTime zone =
        (inc_trans_num g,
         Inr \<lparr>trans_code = code, trans_type = [''DWIX'' ! nat (c mod 4)],
              account_num = acct, utc_time = now,
              tz = (case zone of None \<Rightarrow> timezone_utc | Some z \<Rightarrow> z),
              own_trans_num = None\<rparr>))
   \<and> (\<forall>a b. code = VSlice a b (Some 0) \<longrightarrow>
      TransactionID_init g now code acct utc zone = (g, Inl ValueError))
   \<and> (\<forall>a b c. code = VSlice a b c \<and> c \<noteq> Some 0 \<longrightarrow>
      (\<exists>l. str_slice ''DWIX'' a b c = Inr l \<and>
         TransactionID_init g now code acct NoTime zone =
           (inc_trans_num g,
            Inr \<lparr>trans_code = code, trans_type = l,
                 account_num = acct, utc_time = now,
                 tz = (case zone of None \<Rightarrow> timezone_utc | Some z \<Rightarrow> z),
                 own_trans_num = None\<rparr>)))"
proof -
  have m: "nat (if c < 0 then c + 4 else c) = nat (c mod 4)" if "- 4 \<le> c" "c < 4" for c :: int
  proof (cases "c < 0")
    case True
    with that have "c = - 4 \<or> c = - 3 \<or> c = - 2 \<or> c = - 1" by arith
    then have "c mod 4 = c + 4" by auto
    with True show ?thesis by simp
  next
    case False
    with that show ?thesis by simp
  qed
  have t: "TransactionID_init g now code acct utc zone = (g, Inl TypeError)"
    if "as_int code = None" "\<not> is_slice code"
    using that by (cases code) (simp_all add: TransactionID_init_def str_getitem_def is_slice_def)
  have i: "TransactionID_init g now code acct utc zone = (g, Inl IndexError)"
    if "as_int code = Some c" "c < - 4 \<or> 4 \<le> c" for c
    using that by (auto simp: TransactionID_init_def str_getitem_int)
  have f: "TransactionID_init g now code acct NoTime zone =
        (inc_trans_num g,
         Inr \<lparr>trans_code = code, trans_type = [''DWIX'' ! nat (c mod 4)],
              account_num = acct, utc_time = now,
              tz = (case zone of None \<Rightarrow> timezone_utc | Some z \<Rightarrow> z),
              own_trans_num = None\<rparr>)"
    if "as_int code = Some c" "- 4 \<le> c" "c < 4" for c
    using TransactionID_init_fresh [OF that] m [OF that(2,3)] by simp
  have z: "TransactionID_init g now code acct utc zone = (g, Inl ValueError)"
    if "code = VSlice a b (Some 0)" for a b
    using that by (simp add: TransactionID_init_def str_getitem_def str_slice_def)
  have s: "\<exists>l. str_slice ''DWIX'' a b c = Inr l \<and>
         TransactionID_init g now code acct NoTime zone =
           (inc_trans_num g,
            Inr \<lparr>trans_code = code, trans_type = l,
                 account_num = acct, utc_time = now,
                 tz = (case zone of None \<Rightarrow> timezone_utc | Some z \<Rightarrow> z),
                 own_trans_num = None\<rparr>)"
    if "code = VSlice a b c" "c \<noteq> Some 0" for a b c
  proof -
    from that(2) have "\<exists>l. str_slice ''DWIX'' a b c = Inr l"
      by (cases c) (simp_all add: str_slice_def Let_def)
    then obtain l where l: "str_slice ''DWIX'' a b c = Inr l" ..
    then show ?thesis
      using that(1)
      by (simp add: TransactionID_init_def str_getitem_def or_utcnow_def utc_time_setter_def)
  qed
  show ?thesis using t i f z s by blast
qed

theorem TransactionID_init_code_range_witness:
  "TransactionID_init process_start epoch (VInt 4) (VInt 7) NoTime None =
     (process_start, Inl IndexError)
   \<and> TransactionID_init process_start epoch (VInt (- 5)) (VInt 7) NoTime None =
     (process_start, Inl IndexError)
   \<and> TransactionID_init process_start epoch (VStr ''D'') (VInt 7) NoTime None =
     (process_start, Inl TypeError)
   \<and> TransactionID_init process_start epoch (VFloat (FFin False 1)) (VInt 7) NoTime None =
     (process_start, Inl TypeError)
   \<and> TransactionID_init process_start epoch (VInt 3) (VInt 7) NoTime None =
     (inc_trans_num process_start,
      Inr \<lparr>trans_code = VInt 3, trans_type = ''X'', account_num = VInt 7, utc_time = epoch,
           tz = timezone_utc, own_trans_num = None\<rparr>)
   \<and> TransactionID_init process_start epoch (VSlice None None (Some 0)) (VInt 7) NoTime None =
     (process_start, Inl ValueError)
   \<and> (\<exists>l. str_slice ''DWIX'' (Some 0) (Some 2) None = Inr l \<and>
        TransactionID_init process_start epoch (VSlice (Some 0) (Some 2) None) (VInt 7) NoTime None =
        (inc_trans_num process_start,
         Inr \<lparr>trans_code = VSlice (Some 0) (Some 2) None, trans_type = l, account_num = VInt 7,
              utc_time = epoch, tz = timezone_utc, own_trans_num = None\<rparr>))"
  using TransactionID_init_code_range [of "VInt 4" process_start epoch "VInt 7" NoTime None]
    TransactionID_init_code_range [of "VInt (- 5)" process_start epoch "VInt 7" NoTime None]
    TransactionID_init_code_range [of "VStr ''D''" process_start epoch "VInt 7" NoTime None]
    TransactionID_init_code_range [of "VFloat (FFin False 1)" process_start epoch "VInt 7" NoTime None]
    TransactionID_init_code_range [of "VInt 3" process_start epoch "VInt 7" NoTime None]
    TransactionID_init_code_range [of "VSlice None None (Some 0)" process_start epoch "VInt 7"
      NoTime None]
    TransactionID_init_code_range [of "VSlice (Some 0) (Some 2) None" process_start epoch "VInt 7"
      NoTime None]
  by (simp add: is_slice_def)

section \<open>The shared counter\<close>

lemma TransactionID_init_cases:
  "(\<exists>t. TransactionID_init g now code acct utc zone = (inc_trans_num g, Inr t) \<and>
        own_trans_num t = None \<and> account_num t = acct \<and> trans_code t = code) \<or>
   (\<exists>e. TransactionID_init g now code acct utc zone = (g, Inl e))"
  by (auto simp: TransactionID_init_def split: sum.splits)

lemma TransactionID_init_trans_num:
  "trans_num (fst (TransactionID_init g now code acct utc zone)) \<in> {trans_num g, trans_num g + 1}"
  using TransactionID_init_cases [of g now code acct utc zone]
  by (auto simp: inc_trans_num_def)

lemma set_tz_trans_num: "trans_num (fst (set_tz g zone)) = trans_num g"
  by (auto simp: set_tz_def split: tz_arg.splits sum.splits)

lemma Account_init_trans_num: "trans_num (fst (Account_init g num fname lname zone bal)) = trans_num g"
  using set_tz_trans_num [of g zone]
  by (auto simp: Account_init_def split: sum.splits prod.splits)

lemma deposit_trans_num:
  "trans_num (fst (deposit g now a v)) \<in> {trans_num g, trans_num g + 1}"
proof (cases "refused v")
  case (Inl e)
  then show ?thesis by (simp add: deposit_def)
next
  case r: (Inr r)
  show ?thesis
  proof (cases "r \<or> (\<exists>e. py_op Plus (balance a) (the_num v) = Inl e)")
    case True
    with r show ?thesis by (auto simp: deposit_def)
  next
    case False
    then obtain b where "\<not> r" "py_op Plus (balance a) (the_num v) = Inr b"
      by (cases "py_op Plus (balance a) (the_num v)") auto
    with r have "refused v = Inr False" by simp
    from deposit_ok [OF this \<open>py_op Plus (balance a) (the_num v) = Inr b\<close>, of g now]
    show ?thesis by (simp add: inc_trans_num_def)
  qed
qed

lemma withdraw_cases:
  "(\<exists>e. withdraw g now a v = (g, a, Inl e)) \<or>
   (\<exists>e. withdraw g now a v = (inc_trans_num g, a, Inl e) \<and>
      (\<exists>b. refused v = Inr False \<and> py_op Minus (balance a) (the_num v) = Inr b \<and>
           py_lt0 b = Inr True)) \<or>
   (\<exists>b. withdraw g now a v =
      (inc_trans_num g, a\<lparr>balance := b\<rparr>,
       Inr \<lparr>trans_code = VInt 1, trans_type = ''W'', account_num = account_number a,
            utc_time = now, tz = timezone_utc, own_trans_num = None\<rparr>))"
proof (cases "refused v")
  case (Inl e)
  then show ?thesis by (simp add: withdraw_def)
next
  case r: (Inr r)
  show ?thesis
  proof (cases r)
    case True
    with r show ?thesis by (simp add: withdraw_def)
  next
    case False
    with r have r': "refused v = Inr False" by simp
    show ?thesis
    proof (cases "py_op Minus (balance a) (the_num v)")
      case (Inl e)
      with r' show ?thesis by (simp add: withdraw_raises)
    next
      case b: (Inr b)
      show ?thesis
      proof (cases "py_lt0 b")
        case (Inl e)
        with r' b show ?thesis by (simp add: withdraw_def)
      next
        case s: (Inr s)
        show ?thesis
        proof (cases s)
          case True
          with s have "py_lt0 b = Inr True" by simp
          from withdraw_short [OF r' b this, of g now] r' b this show ?thesis
            by (auto split: sum.splits)
        next
          case False
          with s have "py_lt0 b = Inr False" by simp
          from withdraw_ok [OF r' b this, of g now] show ?thesis by blast
        qed
      qed
    qed
  qed
qed

lemma withdraw_trans_num:
  "trans_num (fst (withdraw g now a v)) \<in> {trans_num g, trans_num g + 1}"
  using withdraw_cases [of g now a v] by (auto simp: inc_trans_num_def)

lemma pay_monthly_interest_trans_num:
  "trans_num (fst (pay_monthly_interest g now a)) \<in> {trans_num g, trans_num g + 1}"
  using TransactionID_init_trans_num [of g now "VInt 2" "account_number a" NoTime None]
  by (auto simp: pay_monthly_interest_def Let_def split: sum.splits prod.splits)

lemma parse_confirmation_code_fields:
  "split CHR ''-'' s = [a, b, c, d] \<Longrightarrow>
   parse_confirmation_code g now s =
     (if \<not> str_in a ''DWIX'' then (g, Inl TransactionCodeError)
      else
        (case str_index ''DWIX'' a of
           Inl e \<Rightarrow> (g, Inl e)
         | Inr code \<Rightarrow>
             (case py_int b of
                Inl e \<Rightarrow> (g, Inl e)
              | Inr n \<Rightarrow>
                  (case get_tz g of
                     Inl e \<Rightarrow> (g, Inl e)
                   | Inr z \<Rightarrow>
                       (case TransactionID_init g now (VInt (int code)) (VInt n)
                               (AsStr c) (Some z) of
                          (g', Inl e) \<Rightarrow> (g', Inl e)
                        | (g', Inr t) \<Rightarrow>
                            (case py_int d of
                               Inl e \<Rightarrow> (g', Inl e)
                             | Inr k \<Rightarrow> (g', Inr (t\<lparr>own_trans_num := Some k\<rparr>))))))))"
  by (simp add: parse_confirmation_code_def)

lemma parse_confirmation_code_structure:
  "length (split CHR ''-'' s) \<noteq> 4 \<Longrightarrow>
   parse_confirmation_code g now s = (g, Inl ValueError)"
proof -
  assume "length (split CHR ''-'' s) \<noteq> 4"
  then have "\<forall>a b c d. split CHR ''-'' s \<noteq> [a, b, c, d]" by auto
  then show ?thesis
    by (simp add: parse_confirmation_code_def split: list.splits)
qed

lemma length_four: "length xs = 4 \<Longrightarrow> \<exists>a b c d. xs = [a, b, c, d]"
  by (cases xs; simp; (rename_tac x1 x1s, case_tac x1s; simp;
      (rename_tac x2 x2s, case_tac x2s; simp; (rename_tac x3 x3s, case_tac x3s; simp))))

lemma parse_confirmation_code_cases:
  "(\<exists>t k. parse_confirmation_code g now s = (inc_trans_num g, Inr t) \<and> own_trans_num t = Some k) \<or>
   (\<exists>e. parse_confirmation_code g now s = (inc_trans_num g, Inl e)) \<or>
   (\<exists>e. parse_confirmation_code g now s = (g, Inl e))"
proof (cases "length (split CHR ''-'' s) = 4")
  case False
  then show ?thesis by (simp add: parse_confirmation_code_structure)
next
  case True
  then obtain a b c d where f: "split CHR ''-'' s = [a, b, c, d]"
    using length_four by blast
  show ?thesis
  proof (cases "str_index ''DWIX'' a")
    case (Inl e)
    then show ?thesis by (simp add: parse_confirmation_code_fields [OF f])
  next
    case code: (Inr i)
    show ?thesis
    proof (cases "py_int b")
      case (Inl e)
      with code show ?thesis by (simp add: parse_confirmation_code_fields [OF f])
    next
      case n: (Inr n)
      show ?thesis
      proof (cases "get_tz g")
        case (Inl e)
        with code n show ?thesis by (simp add: parse_confirmation_code_fields [OF f])
      next
        case z: (Inr z)
        from TransactionID_init_cases [of g now "VInt (int i)" "VInt n" "AsStr c" "Some z"]
        show ?thesis
        proof
          assume "\<exists>t. TransactionID_init g now (VInt (int i)) (VInt n) (AsStr c) (Some z) =
              (inc_trans_num g, Inr t) \<and> own_trans_num t = None \<and> account_num t = VInt n \<and>
              trans_code t = VInt (int i)"
          then obtain t where t: "TransactionID_init g now (VInt (int i)) (VInt n) (AsStr c)
              (Some z) = (inc_trans_num g, Inr t)" by blast
          show ?thesis
            by (cases "py_int d") (simp_all add: parse_confirmation_code_fields [OF f] code n z t)
        next
          assume "\<exists>e. TransactionID_init g now (VInt (int i)) (VInt n) (AsStr c) (Some z) =
              (g, Inl e)"
          then obtain e where "TransactionID_init g now (VInt (int i)) (VInt n) (AsStr c)
              (Some z) = (g, Inl e)" by blast
          then show ?thesis
            by (simp add: parse_confirmation_code_fields [OF f] code n z)
        qed
      qed
    qed
  qed
qed

lemma parse_confirmation_code_trans_num:
  "trans_num (fst (parse_confirmation_code g now s)) \<in> {trans_num g, trans_num g + 1}"
  using parse_confirmation_code_cases [of g now s]
  by (auto simp: inc_trans_num_def)

text \<open>A code whose four fields are each well formed is parsed: the identifier is
  constructed, which moves the counter, and then takes the number of the fourth field.\<close>

lemma find_from_bound:
  "find_from k sub s = Some i \<Longrightarrow> s \<noteq> [] \<Longrightarrow> i < k + length s"
proof (induction s arbitrary: k)
  case Nil
  then show ?case by simp
next
  case (Cons c cs)
  show ?case
  proof (cases "take (length sub) (c # cs) = sub")
    case True
    with Cons.prems show ?thesis by simp
  next
    case False
    with Cons.prems have f: "find_from (Suc k) sub cs = Some i" by simp
    show ?thesis
    proof (cases cs)
      case Nil
      with f have "sub = []" by (simp split: if_splits)
      with False show ?thesis by simp
    next
      case (Cons d ds)
      with Cons.IH [OF f] show ?thesis by simp
    qed
  qed
qed

lemma parse_confirmation_code_wellformed:
  assumes f: "split CHR ''-'' s = [a, b, c, d]"
    and i: "str_index ''DWIX'' a = Inr i"
    and n: "py_int b = Inr n"
    and z: "account_tz g = Some z"
    and c: "c \<noteq> []" "strptime c = Inr t"
  shows "parse_confirmation_code g now s =
     (inc_trans_num g,
      case py_int d of
        Inl e \<Rightarrow> Inl e
      | Inr k \<Rightarrow>
          Inr \<lparr>trans_code = VInt (int i), trans_type = [''DWIX'' ! i], account_num = VInt n,
               utc_time = t, tz = z, own_trans_num = Some k\<rparr>)"
proof -
  from i have fi: "find_from 0 a ''DWIX'' = Some i"
    by (simp add: str_index_def split: option.splits del: find_from.simps)
  then have "i < 4" using find_from_bound [OF fi] by simp
  then have g: "str_getitem ''DWIX'' (VInt (int i)) = Inr [''DWIX'' ! i]"
    by (simp add: str_getitem_def)
  have "TransactionID_init g now (VInt (int i)) (VInt n) (AsStr c) (Some z) =
      (inc_trans_num g,
       Inr \<lparr>trans_code = VInt (int i), trans_type = [''DWIX'' ! i], account_num = VInt n,
            utc_time = t, tz = z, own_trans_num = None\<rparr>)"
    using c by (simp add: TransactionID_init_def g or_utcnow_def utc_time_setter_def)
  then show ?thesis
    using fi i n z
    by (simp add: parse_confirmation_code_fields [OF f] str_in_def get_tz_def split: sum.splits
        del: find_from.simps)
qed

lemma exec_trans_num: "trans_num (exec g c) \<in> {trans_num g, trans_num g + 1}"
proof (cases c)
  case (Pair now k)
  then show ?thesis
    using TransactionID_init_trans_num Account_init_trans_num set_tz_trans_num
      deposit_trans_num withdraw_trans_num pay_monthly_interest_trans_num
      parse_confirmation_code_trans_num
    by (cases k) simp_all
qed

lemma run_trans_num_mono: "trans_num g \<le> trans_num (run g cs)"
  unfolding run_def
proof (induction cs arbitrary: g)
  case Nil
  show ?case by simp
next
  case (Cons c cs)
  have "trans_num g \<le> trans_num (exec g c)" using exec_trans_num [of g c] by auto
  also have "\<dots> \<le> trans_num (foldl exec (exec g c) cs)" by (rule Cons.IH)
  finally show ?case by simp
qed

lemma withdraw_Inr:
  assumes "withdraw g now a v = (g', a', Inr r)"
  shows "g' = inc_trans_num g \<and> own_trans_num r = None \<and> trans_type r = ''W''"
  using withdraw_cases [of g now a v] assms by auto

lemma exact_short:
  assumes "as_exact (balance a) = Some b" and "as_exact v = Some x" and "0 \<le> x" and "b - x < 0"
  shows "\<exists>d. refused v = Inr False \<and> py_op Minus (balance a) (the_num v) = Inr d \<and>
             py_lt0 d = Inr True"
proof -
  from py_op_exact [OF assms(1,2), of Minus] obtain d
    where d: "py_op Minus (balance a) (the_num v) = Inr d" "as_exact d = Some (b - x)"
    by auto
  have "refused v = Inr False" using refused_exact [OF assms(2)] assms(3) by simp
  moreover have "py_lt0 d = Inr True" using py_lt0_exact [OF d(2)] assms(4) by simp
  ultimately show ?thesis using d(1) by blast
qed

lemmas int_eval = py_int_def int_space_def int_unsigned_def is_digit_def digit_val_def

lemmas strptime_eval = strptime_def re_match_def re_m_def re_d_def re_H_def re_M_def re_S_def
  digit_in_def is_digit_def digit_val_def valid_datetime_def days_in_month_def is_leap_def

lemmas strftime_eval = strftime_def zpad_def dec.simps digit_char_def

lemmas str_eval = str_int_def dec.simps digit_char_def Let_def

text \<open>
  C3. The counter \<^verbatim>\<open>TransactionID.trans_num\<close> is one integer of the process. It starts at
  \<open>-1\<close>, below the first number an identifier shows. Every construction that completes
  adds exactly one: the construction with an \<^verbatim>\<open>int\<close> code from \<open>-4\<close> to 3, the one
  inside \<^verbatim>\<open>parse_confirmation_code\<close> for a code of four well-formed fields (the counter
  has moved whether the fourth field then converts, and the instance gets that number, or
  not, and the call raises), and the one of the receipt inside a withdrawal that is
  rejected for lack of funds (the account stays as it was and the call raises). A
  construction that raises leaves the counter as it was. Each call of the program moves
  it by zero or one, so no sequence of calls, failing or not, ever lowers it.
\<close>

theorem trans_num_counter:
  "trans_num process_start = - 1
   \<and> trans_num (inc_trans_num g) = trans_num g + 1
   \<and> (\<forall>i. as_int code = Some i \<and> - 4 \<le> i \<and> i < 4 \<longrightarrow>
        fst (TransactionID_init g now code acct NoTime zone) = inc_trans_num g)
   \<and> (\<forall>t. TransactionID_init g now code acct utc zone = (g', Inr t) \<longrightarrow> g' = inc_trans_num g)
   \<and> (\<forall>e. TransactionID_init g now code acct utc zone = (g', Inl e) \<longrightarrow> g' = g)
   \<and> (\<forall>f1 f2 f3 f4 i n z t.
        split CHR ''-'' s = [f1, f2, f3, f4] \<and> str_index ''DWIX'' f1 = Inr i \<and>
        py_int f2 = Inr n \<and> account_tz g = Some z \<and> f3 \<noteq> [] \<and> strptime f3 = Inr t \<longrightarrow>
        fst (parse_confirmation_code g now s) = inc_trans_num g \<and>
        (\<forall>k. py_int f4 = Inr k \<longrightarrow>
           snd (parse_confirmation_code g now s) =
             Inr \<lparr>trans_code = VInt (int i), trans_type = [''DWIX'' ! i], account_num = VInt n,
                  utc_time = t, tz = z, own_trans_num = Some k\<rparr>) \<and>
        (\<forall>e. py_int f4 = Inl e \<longrightarrow> snd (parse_confirmation_code g now s) = Inl e))
   \<and> (\<forall>d. refused v = Inr False \<and> py_op Minus (balance a) (the_num v) = Inr d \<and>
            py_lt0 d = Inr True \<longrightarrow>
        fst (withdraw g now a v) = inc_trans_num g \<and> fst (snd (withdraw g now a v)) = a \<and>
        (\<exists>e. snd (snd (withdraw g now a v)) = Inl e))
   \<and> (\<forall>b x. as_exact (balance a) = Some b \<and> as_exact v = Some x \<and> 0 \<le> x \<and> b - x < 0 \<longrightarrow>
        fst (withdraw g now a v) = inc_trans_num g \<and> fst (snd (withdraw g now a v)) = a \<and>
        (\<exists>e. snd (snd (withdraw g now a v)) = Inl e))
   \<and> trans_num (exec g cl) \<in> {trans_num g, trans_num g + 1}
   \<and> trans_num g \<le> trans_num (run g cs)
   \<and> - 1 \<le> trans_num (run process_start cs)"
proof -
  have start: "trans_num process_start = - 1" by (simp add: process_start_def)
  have inc: "trans_num (inc_trans_num g) = trans_num g + 1" by (simp add: inc_trans_num_def)
  have fresh: "fst (TransactionID_init g now code acct NoTime zone) = inc_trans_num g"
    if "as_int code = Some i" "- 4 \<le> i" "i < 4" for i
    using TransactionID_init_fresh [OF that] by simp
  have init: "g' = inc_trans_num g"
    if "TransactionID_init g now code acct utc zone = (g', Inr t)" for t
    using that TransactionID_init_cases [of g now code acct utc zone] by auto
  have fail: "g' = g" if "TransactionID_init g now code acct utc zone = (g', Inl e)" for e
    using that TransactionID_init_cases [of g now code acct utc zone] by auto
  have parse: "fst (parse_confirmation_code g now s) = inc_trans_num g \<and>
        (\<forall>k. py_int f4 = Inr k \<longrightarrow>
           snd (parse_confirmation_code g now s) =
             Inr \<lparr>trans_code = VInt (int i), trans_type = [''DWIX'' ! i], account_num = VInt n,
                  utc_time = t, tz = z, own_trans_num = Some k\<rparr>) \<and>
        (\<forall>e. py_int f4 = Inl e \<longrightarrow> snd (parse_confirmation_code g now s) = Inl e)"
    if "split CHR ''-'' s = [f1, f2, f3, f4]" "str_index ''DWIX'' f1 = Inr i"
      "py_int f2 = Inr n" "account_tz g = Some z" "f3 \<noteq> []" "strptime f3 = Inr t"
    for f1 f2 f3 f4 i n z t
    by (simp add: parse_confirmation_code_wellformed [OF that])
  have short: "fst (withdraw g now a v) = inc_trans_num g \<and> fst (snd (withdraw g now a v)) = a \<and>
        (\<exists>e. snd (snd (withdraw g now a v)) = Inl e)"
    if "refused v = Inr False" "py_op Minus (balance a) (the_num v) = Inr d" "py_lt0 d = Inr True"
    for d
    by (simp add: withdraw_short [OF that] split: sum.splits)
  have exact: "fst (withdraw g now a v) = inc_trans_num g \<and> fst (snd (withdraw g now a v)) = a \<and>
        (\<exists>e. snd (snd (withdraw g now a v)) = Inl e)"
    if "as_exact (balance a) = Some b" "as_exact v = Some x" "0 \<le> x" "b - x < 0" for b x
    using exact_short [OF that] short by blast
  have reach: "- 1 \<le> trans_num (run process_start cs)"
    using run_trans_num_mono [of process_start cs] start by simp
  show ?thesis
    using start inc fresh init fail parse short exact exec_trans_num [of g cl]
      run_trans_num_mono [of g cs] reach
    by blast
qed

theorem trans_num_counter_witness:
  "fst (withdraw \<lparr>trans_num = 0, account_tz = Some timezone_utc\<rparr> epoch
       \<lparr>account_number = VInt 9, first_name = ''A'', last_name = ''B'', balance = VInt 9\<rparr>
       (VInt 100)) = \<lparr>trans_num = 1, account_tz = Some timezone_utc\<rparr>
   \<and> parse_confirmation_code \<lparr>trans_num = 0, account_tz = Some timezone_utc\<rparr> epoch
        ''D-9-19700101000000-5'' =
        (\<lparr>trans_num = 1, account_tz = Some timezone_utc\<rparr>,
         Inr \<lparr>trans_code = VInt 0, trans_type = ''D'', account_num = VInt 9, utc_time = epoch,
              tz = timezone_utc, own_trans_num = Some 5\<rparr>)
   \<and> parse_confirmation_code \<lparr>trans_num = 0, account_tz = Some timezone_utc\<rparr> epoch
        ''D-9-19700101000000-x'' =
        (\<lparr>trans_num = 1, account_tz = Some timezone_utc\<rparr>, Inl ValueError)
   \<and> fst (TransactionID_init \<lparr>trans_num = 0, account_tz = Some timezone_utc\<rparr> epoch (VInt 2)
        (VInt 9) NoTime None) = \<lparr>trans_num = 1, account_tz = Some timezone_utc\<rparr>
   \<and> TransactionID_init process_start epoch (VInt 7) (VInt 9) NoTime None =
        (process_start, Inl IndexError)
   \<and> trans_num (run \<lparr>trans_num = 0, account_tz = Some timezone_utc\<rparr>
        [(epoch, Withdraw
            \<lparr>account_number = VInt 9, first_name = ''A'', last_name = ''B'', balance = VInt 9\<rparr>
            (VInt 100)),
         (epoch, ParseConfirmationCode ''D-9-19700101000000-5''),
         (epoch, NewTransactionID (VInt 7) (VInt 9) NoTime None),
         (epoch, ParseConfirmationCode ''D-9-19700101000000-x'')]) = 3"
proof -
  let ?g = "\<lparr>trans_num = 0, account_tz = Some timezone_utc\<rparr>"
  let ?g1 = "\<lparr>trans_num = 1, account_tz = Some timezone_utc\<rparr>"
  let ?g2 = "\<lparr>trans_num = 2, account_tz = Some timezone_utc\<rparr>"
  let ?a = "\<lparr>account_number = VInt 9, first_name = ''A'', last_name = ''B'', balance = VInt 9\<rparr>"
  have f5: "split CHR ''-'' ''D-9-19700101000000-5'' = [''D'', ''9'', ''19700101000000'', ''5'']"
    by simp
  have fx: "split CHR ''-'' ''D-9-19700101000000-x'' = [''D'', ''9'', ''19700101000000'', ''x'']"
    by simp
  have ix: "str_index ''DWIX'' ''D'' = Inr 0" by (simp add: str_index_def)
  have n9: "py_int ''9'' = Inr 9" by (simp add: int_eval)
  have n5: "py_int ''5'' = Inr 5" by (simp add: int_eval)
  have nx: "py_int ''x'' = Inl ValueError" by (simp add: int_eval)
  have tm: "''19700101000000'' \<noteq> []" "strptime ''19700101000000'' = Inr epoch"
    by (simp_all add: strptime_eval epoch_def)
  have ex: "as_exact (balance ?a) = Some 9" "as_exact (VInt 100) = Some 100" "(0::rat) \<le> 100"
      "(9::rat) - 100 < 0"
    by simp_all
  have w: "fst (withdraw g epoch ?a (VInt 100)) = inc_trans_num g" for g
    using trans_num_counter [where g = g and now = epoch and s = "[]" and code = "VInt 2" and acct = "VInt 9" and utc = NoTime
        and zone = None and g' = g and a = ?a and v = "VInt 100" and cs = "[]"
        and cl = "(epoch, SetTz (OfTimezone timezone_utc))"] ex
    by blast
  have p5: "parse_confirmation_code g epoch ''D-9-19700101000000-5'' =
      (inc_trans_num g,
       Inr \<lparr>trans_code = VInt 0, trans_type = ''D'', account_num = VInt 9, utc_time = epoch,
            tz = timezone_utc, own_trans_num = Some 5\<rparr>)"
    if "account_tz g = Some timezone_utc" for g
  proof -
    from trans_num_counter [where g = g and now = epoch and s = "''D-9-19700101000000-5''" and code = "VInt 2" and acct = "VInt 9" and utc = NoTime
        and zone = None and g' = g and a = ?a and v = "VInt 100" and cs = "[]"
        and cl = "(epoch, SetTz (OfTimezone timezone_utc))"]
    have "fst (parse_confirmation_code g epoch ''D-9-19700101000000-5'') = inc_trans_num g \<and>
        (\<forall>k. py_int ''5'' = Inr k \<longrightarrow>
           snd (parse_confirmation_code g epoch ''D-9-19700101000000-5'') =
             Inr \<lparr>trans_code = VInt (int 0), trans_type = [''DWIX'' ! 0], account_num = VInt 9,
                  utc_time = epoch, tz = timezone_utc, own_trans_num = Some k\<rparr>)"
      using f5 ix n9 tm that by blast
    with n5 show ?thesis by (simp add: prod_eq_iff)
  qed
  have px: "parse_confirmation_code g epoch ''D-9-19700101000000-x'' =
      (inc_trans_num g, Inl ValueError)"
    if "account_tz g = Some timezone_utc" for g
  proof -
    from trans_num_counter [where g = g and now = epoch and s = "''D-9-19700101000000-x''" and code = "VInt 2" and acct = "VInt 9" and utc = NoTime
        and zone = None and g' = g and a = ?a and v = "VInt 100" and cs = "[]"
        and cl = "(epoch, SetTz (OfTimezone timezone_utc))"]
    have "fst (parse_confirmation_code g epoch ''D-9-19700101000000-x'') = inc_trans_num g \<and>
        (\<forall>e. py_int ''x'' = Inl e \<longrightarrow>
           snd (parse_confirmation_code g epoch ''D-9-19700101000000-x'') = Inl e)"
      using fx ix n9 tm that by blast
    with nx show ?thesis by (simp add: prod_eq_iff)
  qed
  have c2: "fst (TransactionID_init ?g epoch (VInt 2) (VInt 9) NoTime None) = inc_trans_num ?g"
    using trans_num_counter [where g = ?g and now = epoch and s = "[]" and code = "VInt 2"
        and acct = "VInt 9" and utc = NoTime and zone = None and g' = ?g and a = ?a
        and v = "VInt 100" and cs = "[]" and cl = "(epoch, SetTz (OfTimezone timezone_utc))"]
    by simp
  have c7: "TransactionID_init g epoch (VInt 7) (VInt 9) NoTime None = (g, Inl IndexError)" for g
    by (simp add: TransactionID_init_def str_getitem_def)
  have r: "trans_num (run ?g
        [(epoch, Withdraw ?a (VInt 100)),
         (epoch, ParseConfirmationCode ''D-9-19700101000000-5''),
         (epoch, NewTransactionID (VInt 7) (VInt 9) NoTime None),
         (epoch, ParseConfirmationCode ''D-9-19700101000000-x'')]) = 3"
    by (simp add: run_def w p5 c7 px inc_trans_num_def)
  show ?thesis
    using w [of ?g] p5 [of ?g] px [of ?g] c2 c7 [of process_start] r
    by (simp add: inc_trans_num_def)
qed

end
